theory Spec2Isabelle
  imports Complex_Main "HOL-Library.Log_Nat"
begin

section \<open>JavaScript numbers\<close>

text \<open>
  Prices and indicator values are JavaScript Numbers: IEEE 754 binary64 values with
  round-to-nearest, ties-to-even.  A finite value is kept as the rational it denotes;
  the negative zero, the two infinities and NaN are values of their own.  The arithmetic
  below computes the exact rational result and rounds it once, which is what the
  standard prescribes for \<open>+\<close>, \<open>-\<close>, \<open>*\<close> and \<open>/\<close>.
\<close>

datatype number = Fin rat | NegZero | PosInf | NegInf | NaN

fun val :: "number \<Rightarrow> rat" where
  "val (Fin r) = r"
| "val _ = 0"

fun is_inf :: "number \<Rightarrow> bool" where
  "is_inf PosInf = True"
| "is_inf NegInf = True"
| "is_inf _ = False"

fun is_neg :: "number \<Rightarrow> bool" where
  "is_neg (Fin r) = (r < 0)"
| "is_neg NegZero = True"
| "is_neg NegInf = True"
| "is_neg _ = False"

definition is_zero :: "number \<Rightarrow> bool" where
  "is_zero a = (a = Fin 0 \<or> a = NegZero)"

definition zero_signed :: "bool \<Rightarrow> number" where
  "zero_signed neg = (if neg then NegZero else Fin 0)"

definition inf_signed :: "bool \<Rightarrow> number" where
  "inf_signed neg = (if neg then NegInf else PosInf)"

text \<open>\<open>ilog2 x\<close> is the exponent \<open>e\<close> with \<open>2 powi e \<le> x < 2 powi (e + 1)\<close>, for \<open>x > 0\<close>.\<close>

definition ilog2 :: "rat \<Rightarrow> int" where
  "ilog2 x = (let (p, q) = quotient_of x; e = bitlen p - bitlen q
              in if 2 powi e \<le> x then e else e - 1)"

definition round_half_even :: "rat \<Rightarrow> int" where
  "round_half_even y =
     (let f = \<lfloor>y\<rfloor>; d = y - of_int f
      in if d < 1 / 2 then f else if 1 / 2 < d then f + 1
         else if even f then f else f + 1)"

text \<open>
  Rounding of an exact result to binary64: 53 significant bits, the least exponent of
  the last place is \<open>-1074\<close> (subnormals), and a rounded magnitude of \<open>2 ^ 1024\<close> or more
  is an infinity.
\<close>

definition round_ne :: "rat \<Rightarrow> number" where
  "round_ne x =
     (if x = 0 then Fin 0
      else let e = max (ilog2 \<bar>x\<bar> - 52) (- 1074);
               n = round_half_even (\<bar>x\<bar> / 2 powi e);
               y = of_int n * 2 powi e
           in if 2 ^ 1024 \<le> y then inf_signed (x < 0)
              else if n = 0 then zero_signed (x < 0)
              else Fin (if x < 0 then - y else y))"

definition nneg :: "number \<Rightarrow> number" where
  "nneg a = (case a of
       Fin r \<Rightarrow> if r = 0 then NegZero else Fin (- r)
     | NegZero \<Rightarrow> Fin 0
     | PosInf \<Rightarrow> NegInf
     | NegInf \<Rightarrow> PosInf
     | NaN \<Rightarrow> NaN)"

definition nadd :: "number \<Rightarrow> number \<Rightarrow> number" where
  "nadd a b =
     (if a = NaN \<or> b = NaN then NaN
      else if is_inf a then (if is_inf b \<and> a \<noteq> b then NaN else a)
      else if is_inf b then b
      else if a = NegZero \<and> b = NegZero then NegZero
      else if val a + val b = 0 then Fin 0
      else round_ne (val a + val b))"

definition nmul :: "number \<Rightarrow> number \<Rightarrow> number" where
  "nmul a b =
     (if a = NaN \<or> b = NaN then NaN
      else if is_inf a \<or> is_inf b then
        (if is_zero a \<or> is_zero b then NaN else inf_signed (is_neg a \<noteq> is_neg b))
      else if val a * val b = 0 then zero_signed (is_neg a \<noteq> is_neg b)
      else round_ne (val a * val b))"

definition ndiv :: "number \<Rightarrow> number \<Rightarrow> number" where
  "ndiv a b =
     (if a = NaN \<or> b = NaN then NaN
      else if is_inf a then (if is_inf b then NaN else inf_signed (is_neg a \<noteq> is_neg b))
      else if is_inf b then zero_signed (is_neg a \<noteq> is_neg b)
      else if val b = 0 then
        (if val a = 0 then NaN else inf_signed (is_neg a \<noteq> is_neg b))
      else if val a = 0 then zero_signed (is_neg a \<noteq> is_neg b)
      else round_ne (val a / val b))"

text \<open>The comparison \<open><\<close>: false whenever an operand is NaN; the two zeros are equal.\<close>

definition nless :: "number \<Rightarrow> number \<Rightarrow> bool" where
  "nless a b =
     (if a = NaN \<or> b = NaN then False
      else if b = NegInf \<or> a = PosInf then False
      else if a = NegInf \<or> b = PosInf then True
      else val a < val b)"

text \<open>Strict equality \<open>===\<close> on numbers: NaN equals nothing, the two zeros are equal.\<close>

definition strict_eq :: "number \<Rightarrow> number \<Rightarrow> bool" where
  "strict_eq a b =
     (if a = NaN \<or> b = NaN then False
      else if is_inf a \<or> is_inf b then a = b
      else val a = val b)"

instantiation number :: "{zero, one, plus, minus, uminus, times, inverse, ord}"
begin

definition zero_number :: number where "zero_number = Fin 0"
definition one_number :: number where "one_number = Fin 1"
definition plus_number :: "number \<Rightarrow> number \<Rightarrow> number" where "plus_number a b = nadd a b"
definition uminus_number :: "number \<Rightarrow> number" where "uminus_number a = nneg a"
definition minus_number :: "number \<Rightarrow> number \<Rightarrow> number" where
  "minus_number a b = nadd a (nneg b)"
definition times_number :: "number \<Rightarrow> number \<Rightarrow> number" where "times_number a b = nmul a b"
definition divide_number :: "number \<Rightarrow> number \<Rightarrow> number" where "divide_number a b = ndiv a b"
definition inverse_number :: "number \<Rightarrow> number" where "inverse_number a = ndiv (Fin 1) a"
definition less_number :: "number \<Rightarrow> number \<Rightarrow> bool" where "less_number a b = nless a b"
definition less_eq_number :: "number \<Rightarrow> number \<Rightarrow> bool" where
  "less_eq_number a b = (nless a b \<or> strict_eq a b)"

instance ..

end

text \<open>The value a decimal literal of the source denotes, such as \<open>0.7\<close>.\<close>

definition num :: "rat \<Rightarrow> number" where
  "num r = round_ne r"

text \<open>
  \<open>close_to D v a\<close>: the number \<open>a\<close> is finite and lies within the relative distance
  \<open>D\<close> of the rational \<open>v\<close>.
\<close>

definition close_to :: "rat \<Rightarrow> rat \<Rightarrow> number \<Rightarrow> bool" where
  "close_to D v a = (\<exists>r. a = Fin r \<and> \<bar>r - v\<bar> \<le> D * \<bar>v\<bar>)"

section \<open>Indicator engine\<close>

text \<open>
  \<open>ema\<close> is written once for any number type, so that it can be read over the
  program's \<open>number\<close> and over the reals.  The literal \<open>2\<close> is \<open>1 + 1\<close>, which is exact in
  both.  The loop of the source carries \<open>result[i - 1]\<close> from one round to the next.
\<close>

fun ema_loop :: "'a::{one, plus, minus, times} \<Rightarrow> 'a \<Rightarrow> 'a list \<Rightarrow> 'a list" where
  "ema_loop multiplier prev [] = []"
| "ema_loop multiplier prev (x # xs) =
     (let r = (x * multiplier) + (prev * (1 - multiplier))
      in r # ema_loop multiplier r xs)"

definition ema :: "'a::{one, plus, minus, times, inverse} list \<Rightarrow> 'a \<Rightarrow> 'a list" where
  "ema series len =
     (let multiplier = (1 + 1) / (len + 1)
      in case series of [] \<Rightarrow> [] | x # xs \<Rightarrow> x # ema_loop multiplier x xs)"

text \<open>\<open>ema_passes k\<close> applies \<open>ema\<close> \<open>k\<close> times in succession, as \<open>e1\<close> to \<open>e6\<close> below do.\<close>

fun ema_passes :: "nat \<Rightarrow> 'a::{one, plus, minus, times, inverse} list \<Rightarrow> 'a \<Rightarrow> 'a list" where
  "ema_passes 0 series len = series"
| "ema_passes (Suc k) series len = ema (ema_passes k series len) len"

text \<open>\<open>xs[i]\<close> on numbers: an index out of range reads \<open>undefined\<close>, which is NaN in arithmetic.\<close>

definition idx :: "number list \<Rightarrow> nat \<Rightarrow> number" where
  "idx xs i = (if i < length xs then xs ! i else NaN)"

text \<open>
  \<open>Math.pow\<close> is a library function whose rounding the language leaves to the
  implementation; it is a parameter of \<open>tillsonT3Series\<close>.
\<close>

definition tillsonT3Series ::
  "(number \<Rightarrow> number \<Rightarrow> number) \<Rightarrow> number list \<Rightarrow> number list \<Rightarrow> number list \<Rightarrow>
   number \<Rightarrow> number \<Rightarrow> number list" where
  "tillsonT3Series pow high low close len a =
     (let src = map (\<lambda>i. (idx high i + idx low i + Fin 2 * idx close i) / Fin 4)
                  [0..<length close];
          e1 = ema src len; e2 = ema e1 len; e3 = ema e2 len;
          e4 = ema e3 len; e5 = ema e4 len; e6 = ema e5 len;
          c1 = - pow a (Fin 3);
          c2 = Fin 3 * pow a (Fin 2) + Fin 3 * pow a (Fin 3);
          c3 = Fin (- 6) * pow a (Fin 2) - Fin 3 * a - Fin 3 * pow a (Fin 3);
          c4 = Fin 1 + Fin 3 * a + pow a (Fin 3) + Fin 3 * pow a (Fin 2)
      in map (\<lambda>i. c1 * idx e6 i + c2 * idx e5 i + c3 * idx e4 i + c4 * idx e3 i)
           [0..<length e3])"

datatype color = green | red | yellow

text \<open>The colour map of the loop: \<open>t3.map((v, i) => i ? v > t3[i-1] ? 'green' : 'red' : 'yellow')\<close>.\<close>

definition colors :: "number list \<Rightarrow> color list" where
  "colors t3 =
     map (\<lambda>i. if i \<noteq> 0 then (if idx t3 i > idx t3 (i - 1) then green else red) else yellow)
       [0..<length t3]"

section \<open>Market data gateway\<close>

text \<open>
  A field of an API row is a JSON value; \<open>JUndefined\<close> is a field that is not there and
  \<open>JObj\<close> any array or object.  \<open>truthy\<close> is the language's conversion to a boolean.
\<close>

datatype jsval = JUndefined | JNull | JBool bool | JNum number | JStr string | JObj

fun truthy :: "jsval \<Rightarrow> bool" where
  "truthy JUndefined = False"
| "truthy JNull = False"
| "truthy (JBool b) = b"
| "truthy (JNum n) = (\<not> (n = NaN \<or> is_zero n))"
| "truthy (JStr s) = (s \<noteq> [])"
| "truthy JObj = True"

record row =
  r_time :: jsval
  r_open :: jsval
  r_high :: jsval
  r_low :: jsval
  r_close :: jsval

record candle =
  timestamp :: int
  opn :: number
  high :: number
  low :: number
  close :: number

text \<open>
  The library functions the program calls.  \<open>parseInt\<close> and \<open>parseFloat\<close> read a JSON
  field; an API time is a whole number of seconds, so timestamps are integers, far
  inside the range where the program's arithmetic on them is exact.  \<open>format_ist\<close> is
  \<open>moment(ts).tz('Asia/Kolkata').format('YYYY-MM-DD HH:mm IST')\<close>.
\<close>

record lib =
  parseInt :: "jsval \<Rightarrow> int"
  parseFloat :: "jsval \<Rightarrow> number"
  pow :: "number \<Rightarrow> number \<Rightarrow> number"
  format_ist :: "int \<Rightarrow> string"
  toLocaleString :: "number \<Rightarrow> string"

text \<open>
  What \<open>axios.get\<close> gives: \<open>Rejected\<close> stands for every way the \<open>try\<close> block throws
  (network error, timeout, a body that is not of the expected shape); \<open>Payload s rs\<close> is a
  body with \<open>success = s\<close> and the array \<open>rs\<close> as \<open>result\<close>.
\<close>

datatype response = Rejected | Payload jsval "row list"

definition keep_row :: "row \<Rightarrow> bool" where
  "keep_row c =
     (truthy (r_open c) \<and> truthy (r_high c) \<and> truthy (r_low c) \<and> truthy (r_close c)
      \<and> truthy (r_time c))"

definition to_candle :: "lib \<Rightarrow> row \<Rightarrow> candle" where
  "to_candle L c =
     \<lparr>timestamp = parseInt L (r_time c) * 1000,
      opn = parseFloat L (r_open c),
      high = parseFloat L (r_high c),
      low = parseFloat L (r_low c),
      close = parseFloat L (r_close c)\<rparr>"

definition fetchData :: "lib \<Rightarrow> response \<Rightarrow> candle list option" where
  "fetchData L resp =
     (case resp of
        Rejected \<Rightarrow> None
      | Payload success result \<Rightarrow>
          if \<not> truthy success \<or> result = [] then None
          else Some (sort_key timestamp (map (to_candle L) (filter keep_row result))))"

section \<open>State, notifier and trend monitor\<close>

text \<open>
  The repository holds three versions of the program: \<open>src/bot.js\<close>,
  \<open>src/unnamed/part_000\<close> (shared state, leader guard, cooldown, two-hour boundary) and
  \<open>src/unnamed/part_001\<close>.  They share the indicator engine and the gateway; where they
  differ the definitions below branch on the version.
\<close>

datatype variant = BotJs | Part000 | Part001

datatype trend = UPTREND | DOWNTREND

record log_entry =
  trend :: trend
  time :: string

text \<open>
  One state record serves the three versions: \<open>lastAlertTs\<close>, \<open>leaderPID\<close> and
  \<open>isLeader\<close> exist in \<open>part_000\<close> only and are never read or written by the others.
\<close>

record botState =
  lastTrend :: "trend option"
  lastCandleTs :: "int option"
  lastAlertTs :: int
  logs :: "log_entry list"
  leaderPID :: nat
  isLeader :: bool

record env =
  BOT_TOKEN :: "string option"
  CHAT_ID :: "string option"

definition falsy_env :: "string option \<Rightarrow> bool" where
  "falsy_env x = (x = None \<or> x = Some [])"

text \<open>
  The trace of a cycle: \<open>Notify\<close> is a call of \<open>sendTelegram\<close>, \<open>Post\<close> a call of
  \<open>axios.post\<close> (an outbound delivery attempt) and \<open>Emit\<close> a call of \<open>io.emit\<close>.
  Console output is not traced.
\<close>

datatype effect = Notify string | Post string | Emit "log_entry list"

text \<open>\<open>msg.replace(/<[^>]*>/g, '')\<close>: every \<open><\<close> that has a \<open>>\<close> after it goes, up to the first such \<open>>\<close>.\<close>

function strip_tags :: "string \<Rightarrow> string" where
  "strip_tags [] = []"
| "strip_tags (c # cs) =
     (if c = CHR ''<'' \<and> CHR ''>'' \<in> set cs
      then strip_tags (tl (dropWhile (\<lambda>d. d \<noteq> CHR ''>'') cs))
      else c # strip_tags cs)"
  by pat_completeness auto
termination
proof (relation "measure length")
  fix c :: char and cs :: string
  have "length (tl (dropWhile (\<lambda>d. d \<noteq> CHR ''>'') cs)) \<le> length cs"
    using le_trans [OF diff_le_self length_dropWhile_le] by simp
  then show "(tl (dropWhile (\<lambda>d. d \<noteq> CHR ''>'') cs), c # cs) \<in> measure length"
    by simp
qed simp_all

text \<open>
  \<open>now\<close> is \<open>Date.now()\<close> at the call and \<open>post_ok\<close> tells whether \<open>axios.post\<close>
  resolves; a rejected post is caught and logged.
\<close>

definition sendTelegram ::
  "variant \<Rightarrow> env \<Rightarrow> int \<Rightarrow> bool \<Rightarrow> string \<Rightarrow> botState \<Rightarrow> botState \<times> effect list" where
  "sendTelegram v E now post_ok msg state =
     (case v of
        BotJs \<Rightarrow> (state, [Post msg])
      | Part000 \<Rightarrow>
          if now - lastAlertTs state < 10 * 60 * 1000 then (state, [])
          else if falsy_env (BOT_TOKEN E) \<or> falsy_env (CHAT_ID E) then (state, [])
          else ((if post_ok then state\<lparr>lastAlertTs := now\<rparr> else state), [Post msg])
      | Part001 \<Rightarrow>
          if falsy_env (BOT_TOKEN E) \<or> falsy_env (CHAT_ID E) then (state, [])
          else (state, [Post (strip_tags msg)]))"

text \<open>The configuration constants of the three versions.\<close>

definition SYMBOL :: string where "SYMBOL = ''BTC_USDT''"
definition RESOLUTION :: string where "RESOLUTION = ''2h''"
definition length1 :: number where "length1 = Fin 8"
definition a1 :: number where "a1 = num (7 / 10)"
definition length2 :: number where "length2 = Fin 5"
definition a2 :: number where "a2 = num (618 / 1000)"

text \<open>The two circles of the message text, as their UTF-8 bytes.\<close>

definition green_circle :: string where
  "green_circle = [CHR 0xF0, CHR 0x9F, CHR 0x9F, CHR 0xA2]"

definition red_circle :: string where
  "red_circle = [CHR 0xF0, CHR 0x9F, CHR 0x94, CHR 0xB4]"

fun trend_name :: "trend \<Rightarrow> string" where
  "trend_name UPTREND = ''UPTREND''"
| "trend_name DOWNTREND = ''DOWNTREND''"

definition format_msg :: "variant \<Rightarrow> lib \<Rightarrow> bool \<Rightarrow> trend \<Rightarrow> candle \<Rightarrow> string \<Rightarrow> string" where
  "format_msg v L uptrend tr lastc istTime =
     (if uptrend then green_circle else red_circle) @ '' ''
     @ (if v = Part001 then trend_name tr else ''<b>'' @ trend_name tr @ ''</b>'')
     @ [CHR 0x0A] @ SYMBOL @ '': $'' @ toLocaleString L (close lastc)
     @ [CHR 0x0A] @ RESOLUTION @ '' '' @ istTime"

text \<open>\<open>xs.at(-1)\<close>: the last element, \<open>undefined\<close> on an empty array.\<close>

definition at_last :: "'a list \<Rightarrow> 'a option" where
  "at_last xs = (if xs = [] then None else Some (last xs))"

text \<open>\<open>xs.slice(-n)\<close>: the last \<open>n\<close> elements.\<close>

definition slice_last :: "nat \<Rightarrow> 'a list \<Rightarrow> 'a list" where
  "slice_last n xs = drop (length xs - n) xs"

text \<open>\<open>logs.push(e); if (logs.length > 50) logs = logs.slice(-50)\<close>\<close>

definition append_log :: "log_entry list \<Rightarrow> log_entry \<Rightarrow> log_entry list" where
  "append_log lg e =
     (let pushed = lg @ [e]
      in if length pushed > 50 then slice_last 50 pushed else pushed)"

text \<open>
  The bar timestamp of the latest candle: \<open>Math.floor(last.timestamp)\<close> in \<open>bot.js\<close> and
  \<open>part_001\<close>, \<open>Math.floor(last.timestamp / 1000 / 7200) * 7200 * 1000\<close> in \<open>part_000\<close>.
\<close>

definition candleTs_of :: "variant \<Rightarrow> candle \<Rightarrow> int" where
  "candleTs_of v lastc =
     (case v of
        Part000 \<Rightarrow> \<lfloor>rat_of_int (timestamp lastc) / 1000 / 7200\<rfloor> * 7200 * 1000
      | _ \<Rightarrow> \<lfloor>rat_of_int (timestamp lastc)\<rfloor>)"

text \<open>What one round of the \<open>while (true)\<close> loop reads from outside.\<close>

record cycle_in =
  c_response :: response
  c_now :: int
  c_post_ok :: bool

text \<open>
  One round of the loop body, from \<open>fetchData()\<close> to the sleep.  Every \<open>continue\<close> of the
  source is a branch that returns the state as it stands.  \<open>fetchData\<close> and
  \<open>sendTelegram\<close> catch what they throw and the other statements do not throw on the
  values of this model, so the \<open>catch\<close> of the loop body has no branch here.
\<close>

definition strategyCycle ::
  "variant \<Rightarrow> lib \<Rightarrow> env \<Rightarrow> cycle_in \<Rightarrow> botState \<Rightarrow> botState \<times> effect list" where
  "strategyCycle v L E i state =
     (case fetchData L (c_response i) of
        None \<Rightarrow> (state, [])
      | Some df \<Rightarrow>
          if length df < 20 then (state, [])
          else
            let t3 = tillsonT3Series (pow L) (map high df) (map low df) (map close df)
                       length1 a1;
                t3f = tillsonT3Series (pow L) (map high df) (map low df) (map close df)
                        length2 a2;
                color1 = colors t3;
                color2 = colors t3f;
                lastc = df ! (length df - 1);
                candleTs = candleTs_of v lastc
            in if Some candleTs = lastCandleTs state then (state, [])
               else
                 let state1 = state\<lparr>lastCandleTs := Some candleTs\<rparr>;
                     uptrend = (at_last color1 = Some green \<and> at_last color2 = Some green);
                     downtrend = (at_last color1 = Some red \<and> at_last color2 = Some red)
                 in if \<not> uptrend \<and> \<not> downtrend then (state1, [])
                    else
                      let tr = (if uptrend then UPTREND else DOWNTREND)
                      in if Some tr \<noteq> lastTrend state1 then
                           let istTime = format_ist L candleTs;
                               state2 = state1\<lparr>logs :=
                                          append_log (logs state1) \<lparr>trend = tr, time = istTime\<rparr>\<rparr>;
                               msg = format_msg v L uptrend tr lastc istTime;
                               (state3, sent) =
                                  sendTelegram v E (c_now i) (c_post_ok i) msg state2;
                               state4 = state3\<lparr>lastTrend := Some tr\<rparr>
                           in (state4, Notify msg # sent @ [Emit (logs state4)])
                         else (state1, []))"

text \<open>
  The loop never ends; \<open>run_cycles\<close> is its run over the inputs of finitely many rounds,
  with the trace of all of them.  In \<open>part_000\<close> the loop is entered by the leader only.
\<close>

fun run_cycles ::
  "variant \<Rightarrow> lib \<Rightarrow> env \<Rightarrow> cycle_in list \<Rightarrow> botState \<Rightarrow> botState \<times> effect list" where
  "run_cycles v L E [] state = (state, [])"
| "run_cycles v L E (i # ins) state =
     (let (state1, tr1) = strategyCycle v L E i state;
          (state2, tr2) = run_cycles v L E ins state1
      in (state2, tr1 @ tr2))"

definition strategyLoop ::
  "variant \<Rightarrow> lib \<Rightarrow> env \<Rightarrow> cycle_in list \<Rightarrow> botState \<Rightarrow> botState \<times> effect list" where
  "strategyLoop v L E ins state =
     (if v = Part000 \<and> \<not> isLeader state then (state, [])
      else run_cycles v L E ins state)"

text \<open>
  Start of the process.  \<open>bot.js\<close> leaves with status 1 when a credential is missing;
  \<open>part_000\<close> takes the state already stored under \<open>global.botState\<close>, if there is one,
  and becomes a follower.
\<close>

datatype started = Exit nat | Running botState

definition initial_state :: "nat \<Rightarrow> botState" where
  "initial_state pid =
     \<lparr>lastTrend = None, lastCandleTs = None, lastAlertTs = 0, logs = [],
      leaderPID = pid, isLeader = True\<rparr>"

definition startup :: "variant \<Rightarrow> env \<Rightarrow> nat \<Rightarrow> botState option \<Rightarrow> started" where
  "startup v E pid global_botState =
     (case v of
        BotJs \<Rightarrow>
          if falsy_env (BOT_TOKEN E) \<or> falsy_env (CHAT_ID E) then Exit 1
          else Running (initial_state pid)
      | Part000 \<Rightarrow>
          (case global_botState of
             None \<Rightarrow> Running (initial_state pid)
           | Some shared \<Rightarrow> Running (shared\<lparr>isLeader := False\<rparr>))
      | Part001 \<Rightarrow> Running (initial_state pid))"

section \<open>Example inputs\<close>

text \<open>
  A small library and a poll result of twenty two-hour bars that ends at second \<open>t\<close>,
  used where a statement below is instantiated.
\<close>

definition example_lib :: lib where
  "example_lib =
     \<lparr>parseInt = (\<lambda>j. case j of JNum n \<Rightarrow> \<lfloor>val n\<rfloor> | _ \<Rightarrow> 0),
      parseFloat = (\<lambda>j. case j of JNum n \<Rightarrow> n | _ \<Rightarrow> NaN),
      pow = (\<lambda>a b. if b = Fin 2 then a * a else a * a * a),
      format_ist = (\<lambda>t. ''2023-11-15 04:00 IST''),
      toLocaleString = (\<lambda>n. ''1'')\<rparr>"

definition example_env :: env where
  "example_env = \<lparr>BOT_TOKEN = Some ''token'', CHAT_ID = Some ''42''\<rparr>"

definition example_row :: "int \<Rightarrow> rat \<Rightarrow> row" where
  "example_row t p =
     \<lparr>r_time = JNum (Fin (of_int t)), r_open = JNum (Fin p), r_high = JNum (Fin p),
      r_low = JNum (Fin p), r_close = JNum (Fin p)\<rparr>"

definition example_rows :: "int \<Rightarrow> row list" where
  "example_rows t = map (\<lambda>k. example_row (t - 7200 * (19 - int k)) 1) [0..<20]"

definition example_in :: "int \<Rightarrow> cycle_in" where
  "example_in t =
     \<lparr>c_response = Payload (JBool True) (example_rows t), c_now = t * 1000 + 1,
      c_post_ok = True\<rparr>"

text \<open>
  A poll of twenty bars of which the first nineteen close at 1 and the last at 2.
\<close>

definition rising_rows :: "int \<Rightarrow> row list" where
  "rising_rows t =
     map (\<lambda>k. example_row (t - 7200 * (19 - int k)) 1) [0..<19] @ [example_row t 2]"

definition example_rising :: "int \<Rightarrow> cycle_in" where
  "example_rising t =
     \<lparr>c_response = Payload (JBool True) (rising_rows t), c_now = t * 1000 + 1,
      c_post_ok = True\<rparr>"

section \<open>Rounding: the exponent of a rational\<close>

text \<open>
  \<open>ilog2\<close> finds the binary exponent of a positive rational, and is the only exponent
  that fits; this is what lets a rounding be computed at a given number.
\<close>

lemma powi_bitlen_bounds:
  assumes "0 < p"
  shows "(2::rat) powi (bitlen p - 1) \<le> rat_of_int p" "rat_of_int p < 2 powi (bitlen p)"
proof -
  from assms have b1: "1 \<le> bitlen p"
    by (simp add: bitlen_def floorlog_def)
  from bitlen_bounds [OF assms]
  have lo: "2 ^ nat (bitlen p - 1) \<le> p" and hi: "p < 2 ^ nat (bitlen p)"
    by simp_all
  from lo have "rat_of_int (2 ^ nat (bitlen p - 1)) \<le> rat_of_int p"
    by (simp only: of_int_le_iff)
  with b1 show "(2::rat) powi (bitlen p - 1) \<le> rat_of_int p"
    by (simp add: power_int_def)
  from hi have "rat_of_int p < rat_of_int (2 ^ nat (bitlen p))"
    by (simp only: of_int_less_iff)
  with b1 show "rat_of_int p < 2 powi (bitlen p)"
    by (simp add: power_int_def)
qed

lemma powi2_less_imp: "(2::rat) powi a < 2 powi b \<Longrightarrow> a < b"
proof (rule ccontr)
  assume less: "(2::rat) powi a < 2 powi b" and "\<not> a < b"
  then have "b \<le> a" by simp
  then have "(2::rat) powi b \<le> 2 powi a"
    by (rule power_int_increasing) simp
  with less show False by simp
qed

lemma ilog2_bounds:
  assumes "0 < x"
  shows "2 powi (ilog2 x) \<le> x \<and> x < 2 powi (ilog2 x + 1)"
proof -
  obtain p q where pq: "quotient_of x = (p, q)"
    by (cases "quotient_of x")
  then have q: "0 < q" and x: "x = rat_of_int p / rat_of_int q"
    by (simp_all add: quotient_of_denom_pos quotient_of_div)
  with assms have p: "0 < p"
    by (simp add: zero_less_divide_iff)
  note bp = powi_bitlen_bounds [OF p] and bq = powi_bitlen_bounds [OF q]
  let ?e = "bitlen p - bitlen q"
  have qpos: "0 < rat_of_int q" using q by simp
  have "x < 2 powi (bitlen p) / 2 powi (bitlen q - 1)"
    unfolding x using bp(2) bq(1) p
    by (intro frac_less) simp_all
  also have "\<dots> = 2 powi (bitlen p - (bitlen q - 1))"
    by (rule power_int_diff [symmetric]) simp
  also have "bitlen p - (bitlen q - 1) = ?e + 1"
    by simp
  finally have up: "x < 2 powi (?e + 1)" .
  have "(2::rat) powi (bitlen p - 1 - bitlen q) = 2 powi (bitlen p - 1) / 2 powi (bitlen q)"
    by (rule power_int_diff) simp
  also have "\<dots> < x"
    unfolding x using bp(1) bq(2) qpos p
    by (intro frac_less2) simp_all
  finally have "(2::rat) powi (bitlen p - 1 - bitlen q) < x" .
  moreover have "bitlen p - 1 - bitlen q = ?e - 1"
    by simp
  ultimately have lo: "2 powi (?e - 1) < x"
    by simp
  show ?thesis
  proof (cases "2 powi ?e \<le> x")
    case True
    then show ?thesis using up by (simp add: ilog2_def pq)
  next
    case False
    then show ?thesis using lo by (simp add: ilog2_def pq)
  qed
qed

lemma ilog2_eq:
  assumes "2 powi e \<le> x" "x < 2 powi (e + 1)"
  shows "ilog2 x = e"
proof -
  have "0 < (2::rat) powi e" by simp
  from this assms(1) have "0 < x" by (rule less_le_trans)
  from ilog2_bounds [OF this]
  have a: "2 powi (ilog2 x) \<le> x" and b: "x < 2 powi (ilog2 x + 1)" by simp_all
  from a assms(2) have "(2::rat) powi (ilog2 x) < 2 powi (e + 1)" by simp
  then have "ilog2 x < e + 1" by (rule powi2_less_imp)
  moreover from assms(1) b have "(2::rat) powi e < 2 powi (ilog2 x + 1)" by simp
  then have "e < ilog2 x + 1" by (rule powi2_less_imp)
  ultimately show ?thesis by simp
qed

lemma floor_rat_numeral:
  "\<lfloor>(numeral a :: rat) / numeral b\<rfloor> = numeral a div numeral b"
  using floor_divide_of_int_eq [of "numeral a" "numeral b", where ?'a = rat] by simp

text \<open>
  Some values of the arithmetic: the literals \<open>0.1\<close>, \<open>0.2\<close>, \<open>0.3\<close> and the two
  coefficients of the program, and the sum \<open>0.1 + 0.2\<close>, which is
  \<open>0.30000000000000004\<close> and not the number \<open>0.3\<close>.
\<close>

lemma num_tenth: "num (1 / 10) = Fin (3602879701896397 / 36028797018963968)"
proof -
  have "ilog2 (1 / 10) = - 4"
    by (rule ilog2_eq) simp_all
  then show ?thesis
    by (simp add: num_def round_ne_def round_half_even_def Let_def floor_rat_numeral)
qed

lemma num_fifth: "num (1 / 5) = Fin (3602879701896397 / 18014398509481984)"
proof -
  have "ilog2 (1 / 5) = - 3"
    by (rule ilog2_eq) simp_all
  then show ?thesis
    by (simp add: num_def round_ne_def round_half_even_def Let_def floor_rat_numeral)
qed

lemma num_three_tenths: "num (3 / 10) = Fin (5404319552844595 / 18014398509481984)"
proof -
  have "ilog2 (3 / 10) = - 2"
    by (rule ilog2_eq) simp_all
  then show ?thesis
    by (simp add: num_def round_ne_def round_half_even_def Let_def floor_rat_numeral)
qed

lemma num_a1: "a1 = Fin (3152519739159347 / 4503599627370496)"
proof -
  have "ilog2 (7 / 10) = - 1"
    by (rule ilog2_eq) simp_all
  then show ?thesis
    by (simp add: a1_def num_def round_ne_def round_half_even_def Let_def floor_rat_numeral)
qed

lemma num_a2: "a2 = Fin (5566449139429933 / 9007199254740992)"
proof -
  have "ilog2 (309 / 500) = - 1"
    by (rule ilog2_eq) simp_all
  then show ?thesis
    by (simp add: a2_def num_def round_ne_def round_half_even_def Let_def floor_rat_numeral)
qed

lemma tenth_plus_fifth:
  "num (1 / 10) + num (1 / 5) = Fin (1351079888211149 / 4503599627370496)
   \<and> num (1 / 10) + num (1 / 5) \<noteq> num (3 / 10)"
proof -
  have "ilog2 (10808639105689191 / 36028797018963968) = - 2"
    by (rule ilog2_eq) simp_all
  then show ?thesis
    by (simp add: num_tenth num_fifth num_three_tenths plus_number_def nadd_def round_ne_def
          round_half_even_def Let_def floor_rat_numeral)
qed

section \<open>Indicator engine: lengths and colours\<close>

lemma length_ema_loop: "length (ema_loop m p xs) = length xs"
  by (induction xs arbitrary: p) (simp_all add: Let_def)

lemma length_ema: "length (ema series len) = length series"
  by (cases series) (simp_all add: ema_def Let_def length_ema_loop)

lemma ema_Nil: "ema [] len = []"
  by (simp add: ema_def)

text \<open>
  C7.  Whatever the window length, the coefficient and the \<open>Math.pow\<close> in use,
  \<open>tillsonT3Series\<close> returns one value per element of \<open>close\<close>, hence as many values as
  each of three input series of equal length has; on empty series it returns the empty
  series.
\<close>

theorem tillsonT3Series_length:
  "length (tillsonT3Series pw hs ls cs len a) = length cs
   \<and> tillsonT3Series pw [] [] [] len a = []"
  by (simp add: tillsonT3Series_def Let_def length_ema ema_Nil)

lemma nless_irrefl: "\<not> nless a a"
  by (simp add: nless_def)

lemma strict_eq_not_nless: "strict_eq a b \<Longrightarrow> \<not> nless b a"
  by (cases a; cases b) (auto simp: strict_eq_def nless_def split: if_splits)

lemma length_colors: "length (colors s) = length s"
  by (simp add: colors_def)

lemma colors_nth:
  "i < length s \<Longrightarrow>
   colors s ! i = (if i = 0 then yellow else if s ! i > s ! (i - 1) then green else red)"
  by (auto simp: colors_def idx_def)

text \<open>
  C3.  The colour sequence of a series \<open>s\<close> has the length of \<open>s\<close>; its element 0 is
  \<open>yellow\<close>; for \<open>i > 0\<close> its element \<open>i\<close> is \<open>green\<close> if \<open>s[i] > s[i-1]\<close> and \<open>red\<close>
  otherwise.  In particular two equal neighbours (equal under \<open>===\<close>, or the same value)
  give \<open>red\<close>.
\<close>

theorem colors_classification:
  "length (colors s) = length s
   \<and> (\<forall>i < length s. colors s ! i =
         (if i = 0 then yellow else if s ! i > s ! (i - 1) then green else red))
   \<and> (\<forall>i < length s. 0 < i \<longrightarrow> (strict_eq (s ! i) (s ! (i - 1)) \<or> s ! i = s ! (i - 1))
         \<longrightarrow> colors s ! i = red)"
  by (auto simp: length_colors colors_nth less_number_def nless_irrefl strict_eq_not_nless)

theorem colors_classification_witness:
  "colors [Fin 1, Fin 2, Fin 2] ! 0 = yellow
   \<and> colors [Fin 1, Fin 2, Fin 2] ! 1 = green
   \<and> strict_eq ([Fin 1, Fin 2, Fin 2] ! 2) ([Fin 1, Fin 2, Fin 2] ! (2 - 1))
   \<and> colors [Fin 1, Fin 2, Fin 2] ! 2 = red"
  using colors_classification [of "[Fin 1, Fin 2, Fin 2]"]
  by (simp add: strict_eq_def less_number_def nless_def)

section \<open>Gateway\<close>

lemma truthy_zero_forms:
  "\<not> truthy (JNum (Fin 0)) \<and> \<not> truthy (JNum NegZero) \<and> truthy (JStr ''0'')"
  by (simp add: is_zero_def)

text \<open>
  C10.  A row one of whose five fields is the number zero (either zero of the number
  type) does not pass the filter although the field is present, and \<open>fetchData\<close>
  returns the candles it would return for the same result list without that row.
\<close>

theorem fetchData_drops_zero_rows:
  "is_zero z \<Longrightarrow> JNum z \<in> {r_open r, r_high r, r_low r, r_close r, r_time r} \<Longrightarrow>
   \<not> keep_row r
   \<and> fetchData L (Payload s (xs @ r # ys)) =
       (if truthy s
        then Some (sort_key timestamp (map (to_candle L) (filter keep_row (xs @ ys))))
        else None)"
proof -
  assume z: "is_zero z" and mem: "JNum z \<in> {r_open r, r_high r, r_low r, r_close r, r_time r}"
  from z have "\<not> truthy (JNum z)" by simp
  with mem have nk: "\<not> keep_row r"
    by (auto simp: keep_row_def simp del: truthy.simps)
  then show ?thesis
    by (simp add: fetchData_def)
qed

theorem fetchData_drops_zero_rows_witness:
  "is_zero (Fin 0)
   \<and> JNum (Fin 0) \<in> {r_open ((example_row 1700001000 1)\<lparr>r_low := JNum (Fin 0)\<rparr>),
                      r_high ((example_row 1700001000 1)\<lparr>r_low := JNum (Fin 0)\<rparr>),
                      r_low ((example_row 1700001000 1)\<lparr>r_low := JNum (Fin 0)\<rparr>),
                      r_close ((example_row 1700001000 1)\<lparr>r_low := JNum (Fin 0)\<rparr>),
                      r_time ((example_row 1700001000 1)\<lparr>r_low := JNum (Fin 0)\<rparr>)}
   \<and> fetchData example_lib
        (Payload (JBool True)
           ([] @ (example_row 1700001000 1)\<lparr>r_low := JNum (Fin 0)\<rparr>
               # [example_row 1700008200 1])) =
      Some [to_candle example_lib (example_row 1700008200 1)]"
  using fetchData_drops_zero_rows
    [of "Fin 0" "(example_row 1700001000 1)\<lparr>r_low := JNum (Fin 0)\<rparr>" example_lib
        "JBool True" "[]" "[example_row 1700008200 1]"]
  by (simp add: is_zero_def example_row_def keep_row_def)

section \<open>Trend monitor\<close>

text \<open>
  C8.  A round whose fetch gives the failure value, or fewer than 20 candles, leaves
  the whole state as it was (evaluated-bar timestamp, trend and log included) and has
  an empty trace: no log entry, no call of the notifier, no broadcast.
\<close>

theorem insufficient_history_frame:
  "fetchData L (c_response i) = None
   \<or> (\<exists>df. fetchData L (c_response i) = Some df \<and> length df < 20)
   \<Longrightarrow> strategyCycle v L E i st = (st, [])"
  by (auto simp: strategyCycle_def)

theorem insufficient_history_frame_witness:
  "(\<exists>df. fetchData example_lib
            (c_response \<lparr>c_response = Payload (JBool True) [example_row 1700001000 1],
                         c_now = 1700001000001, c_post_ok = True\<rparr>) = Some df
         \<and> length df < 20)
   \<and> strategyCycle Part000 example_lib example_env
        \<lparr>c_response = Payload (JBool True) [example_row 1700001000 1],
         c_now = 1700001000001, c_post_ok = True\<rparr> (initial_state 1) =
      (initial_state 1, [])"
  using insufficient_history_frame
    [of example_lib
        "\<lparr>c_response = Payload (JBool True) [example_row 1700001000 1],
          c_now = 1700001000001, c_post_ok = True\<rparr>"
        Part000 example_env "initial_state 1"]
  by (simp add: fetchData_def)

lemma sendTelegram_frame:
  "sendTelegram v E n ok m st = (st', tr) \<Longrightarrow>
   logs st' = logs st \<and> lastCandleTs st' = lastCandleTs st \<and> lastTrend st' = lastTrend st"
  by (auto simp: sendTelegram_def split: variant.splits if_splits)

lemma length_append_log: "length lg \<le> 50 \<Longrightarrow> length (append_log lg e) \<le> 50"
  by (simp add: append_log_def slice_last_def Let_def)

lemma append_log_full: "length lg = 50 \<Longrightarrow> append_log lg e = tl lg @ [e]"
  by (cases lg) (simp_all add: append_log_def slice_last_def Let_def)

lemma strategyCycle_logs:
  "logs (fst (strategyCycle v L E i st)) = logs st
   \<or> (\<exists>e. logs (fst (strategyCycle v L E i st)) = append_log (logs st) e)"
  by (auto simp: strategyCycle_def Let_def split: option.splits prod.splits
           dest!: sendTelegram_frame)

lemma strategyCycle_log_bound:
  "length (logs st) \<le> 50 \<Longrightarrow> length (logs (fst (strategyCycle v L E i st))) \<le> 50"
  using strategyCycle_logs [of v L E i st] by (auto simp: length_append_log)

lemma run_cycles_log_bound:
  "length (logs st) \<le> 50 \<Longrightarrow> length (logs (fst (run_cycles v L E ins st))) \<le> 50"
proof (induction ins arbitrary: st)
  case Nil
  then show ?case by simp
next
  case (Cons i ins)
  from Cons.prems have "length (logs (fst (strategyCycle v L E i st))) \<le> 50"
    by (rule strategyCycle_log_bound)
  from Cons.IH [OF this] show ?case
    by (simp add: split_beta Let_def)
qed

lemma example_fetch:
  "fetchData example_lib (c_response (example_in 1700001000))
   = Some (map (to_candle example_lib) (example_rows 1700001000))"
  by code_simp

lemma example_fetch_length:
  "length (map (to_candle example_lib) (example_rows 1700001000)) = 20"
  by (simp add: example_rows_def)

lemma example_last:
  "timestamp (map (to_candle example_lib) (example_rows 1700001000)
      ! (length (map (to_candle example_lib) (example_rows 1700001000)) - 1)) = 1700001000000"
  by code_simp

text \<open>
  C4.  The log of every state the loop reaches from the initial state, after any number
  of rounds, has at most 50 entries.  A round either leaves the log alone or replaces
  it by \<open>append_log\<close> of it, and \<open>append_log\<close> on a full log of 50 drops the oldest entry
  and keeps the other 49 in order before the new one.  (Inside a round the log holds 51
  entries between \<open>push\<close> and \<open>slice\<close>; nothing reads it there.)
\<close>

theorem log_bounded_fifo:
  "length (logs (fst (strategyLoop v L E ins (initial_state pid)))) \<le> 50
   \<and> (logs (fst (strategyCycle v L E i st)) = logs st
      \<or> (\<exists>e. logs (fst (strategyCycle v L E i st)) = append_log (logs st) e))
   \<and> (length lg = 50 \<longrightarrow> append_log lg e = tl lg @ [e] \<and> length (append_log lg e) = 50)"
proof -
  have "length (logs (initial_state pid)) \<le> 50"
    by (simp add: initial_state_def)
  then have "length (logs (fst (strategyLoop v L E ins (initial_state pid)))) \<le> 50"
    by (simp add: strategyLoop_def run_cycles_log_bound)
  then show ?thesis
    using strategyCycle_logs [of v L E i st] by (auto simp: append_log_full)
qed

theorem log_bounded_fifo_witness:
  "length (replicate 50 \<lparr>trend = UPTREND, time = ''a''\<rparr>) = 50
   \<and> append_log (replicate 50 \<lparr>trend = UPTREND, time = ''a''\<rparr>) \<lparr>trend = DOWNTREND, time = ''b''\<rparr>
     = tl (replicate 50 \<lparr>trend = UPTREND, time = ''a''\<rparr>) @ [\<lparr>trend = DOWNTREND, time = ''b''\<rparr>]"
  using log_bounded_fifo
    [of Part000 example_lib example_env "[]" 1 "example_in 1700001000" "initial_state 1"
        "replicate 50 \<lparr>trend = UPTREND, time = ''a''\<rparr>" "\<lparr>trend = DOWNTREND, time = ''b''\<rparr>"]
  by simp

lemma strategyCycle_records_bar:
  "fetchData L (c_response i) = Some df \<Longrightarrow> 20 \<le> length df \<Longrightarrow>
   lastCandleTs (fst (strategyCycle v L E i st)) = Some (candleTs_of v (df ! (length df - 1)))"
  by (auto simp: strategyCycle_def Let_def split: prod.splits dest!: sendTelegram_frame)

lemma strategyCycle_same_bar:
  "fetchData L (c_response i) = Some df \<Longrightarrow> 20 \<le> length df \<Longrightarrow>
   lastCandleTs st = Some (candleTs_of v (df ! (length df - 1))) \<Longrightarrow>
   strategyCycle v L E i st = (st, [])"
  by (simp add: strategyCycle_def Let_def)

lemma strategyCycle_repeat_bar:
  "fetchData L (c_response i1) = Some df1 \<Longrightarrow> 20 \<le> length df1 \<Longrightarrow>
   fetchData L (c_response i2) = Some df2 \<Longrightarrow> 20 \<le> length df2 \<Longrightarrow>
   candleTs_of v (df1 ! (length df1 - 1)) = candleTs_of v (df2 ! (length df2 - 1)) \<Longrightarrow>
   strategyCycle v L E i2 (fst (strategyCycle v L E i1 st)) =
     (fst (strategyCycle v L E i1 st), [])"
  by (rule strategyCycle_same_bar) (simp_all add: strategyCycle_records_bar)

lemma candleTs_of_Part000: "candleTs_of Part000 c = timestamp c div 7200000 * 7200000"
proof -
  have f: "\<lfloor>rat_of_int (timestamp c) / rat_of_int 7200000\<rfloor> = timestamp c div 7200000"
    by (rule floor_divide_of_int_eq)
  have g: "rat_of_int (timestamp c) / 1000 / 7200
           = rat_of_int (timestamp c) / rat_of_int 7200000"
    by simp
  have "candleTs_of Part000 c = \<lfloor>rat_of_int (timestamp c) / 1000 / 7200\<rfloor> * 7200 * 1000"
    by (simp add: candleTs_of_def)
  also have "\<dots> = timestamp c div 7200000 * 7200 * 1000"
    by (simp only: g f)
  also have "\<dots> = timestamp c div 7200000 * 7200000"
    by simp
  finally show ?thesis .
qed

text \<open>
  C2, as amended.  After a round that fetched at least 20 candles the recorded
  evaluated-bar timestamp is \<open>candleTs\<close> of the latest candle.  In \<open>part_000\<close> that is
  the candle's timestamp floor-divided by 7200000 and multiplied by 7200000; in
  \<open>bot.js\<close> and \<open>part_001\<close> it is the candle's timestamp itself.
\<close>

theorem recorded_bar_timestamp:
  "(\<forall>df. fetchData L (c_response i) = Some df \<and> 20 \<le> length df \<longrightarrow>
      lastCandleTs (fst (strategyCycle v L E i st)) = Some (candleTs_of v (df ! (length df - 1))))
   \<and> candleTs_of Part000 c = timestamp c div 7200000 * 7200000
   \<and> candleTs_of BotJs c = timestamp c
   \<and> candleTs_of Part001 c = timestamp c"
proof (intro conjI allI impI)
  fix df
  assume "fetchData L (c_response i) = Some df \<and> 20 \<le> length df"
  then show "lastCandleTs (fst (strategyCycle v L E i st))
             = Some (candleTs_of v (df ! (length df - 1)))"
    by (simp add: strategyCycle_records_bar)
next
  show "candleTs_of Part000 c = timestamp c div 7200000 * 7200000"
    by (rule candleTs_of_Part000)
next
  show "candleTs_of BotJs c = timestamp c"
    by (simp add: candleTs_of_def)
next
  show "candleTs_of Part001 c = timestamp c"
    by (simp add: candleTs_of_def)
qed

theorem recorded_bar_timestamp_witness:
  "fetchData example_lib (c_response (example_in 1700001000))
     = Some (map (to_candle example_lib) (example_rows 1700001000))
   \<and> 20 \<le> length (map (to_candle example_lib) (example_rows 1700001000))
   \<and> lastCandleTs (fst (strategyCycle Part000 example_lib example_env
                           (example_in 1700001000) (initial_state 1)))
     = Some 1699999200000"
proof -
  let ?df = "map (to_candle example_lib) (example_rows 1700001000)"
  let ?c = "?df ! (length ?df - 1)"
  have len: "20 \<le> length ?df"
    by (simp only: example_fetch_length)
  from recorded_bar_timestamp
         [of example_lib "example_in 1700001000" Part000 example_env "initial_state 1" ?c]
  have rec: "lastCandleTs (fst (strategyCycle Part000 example_lib example_env
                                 (example_in 1700001000) (initial_state 1)))
             = Some (candleTs_of Part000 ?c)"
    and bar: "candleTs_of Part000 ?c = timestamp ?c div 7200000 * 7200000"
    using example_fetch len by blast+
  have "timestamp ?c div 7200000 * 7200000 = 1699999200000"
    by (simp only: example_last) simp
  with rec bar example_fetch len show ?thesis
    by simp
qed

text \<open>
  C2 as stated fails on \<open>bot.js\<close>: a latest candle at 1700001000000 ms, which is not on
  a two-hour boundary, is recorded as it is and not as 1699999200000.
\<close>

theorem recorded_bar_timestamp_counterexample:
  "fetchData example_lib (c_response (example_in 1700001000))
     = Some (map (to_candle example_lib) (example_rows 1700001000))
   \<and> timestamp (map (to_candle example_lib) (example_rows 1700001000)
        ! (length (map (to_candle example_lib) (example_rows 1700001000)) - 1))
     = 1700001000000
   \<and> lastCandleTs (fst (strategyCycle BotJs example_lib example_env
                           (example_in 1700001000) (initial_state 1)))
     = Some 1700001000000
   \<and> (1700001000000::int) div 7200000 * 7200000 = 1699999200000"
proof -
  let ?df = "map (to_candle example_lib) (example_rows 1700001000)"
  have len: "20 \<le> length ?df"
    by (simp only: example_fetch_length)
  have "lastCandleTs (fst (strategyCycle BotJs example_lib example_env
                             (example_in 1700001000) (initial_state 1)))
        = Some (candleTs_of BotJs (?df ! (length ?df - 1)))"
    using example_fetch len by (rule strategyCycle_records_bar)
  also have "candleTs_of BotJs (?df ! (length ?df - 1)) = 1700001000000"
    by (simp only: candleTs_of_def variant.case floor_of_int example_last)
  finally show ?thesis
    using example_fetch example_last by simp
qed

section \<open>Six passes over a constant series\<close>

lemma length_ema_passes: "length (ema_passes k series len) = length series"
  by (induction k) (simp_all add: length_ema)

lemma hd_ema: "hd (ema series len) = hd series"
  by (cases series) (simp_all add: ema_def Let_def)

lemma hd_ema_passes: "hd (ema_passes k series len) = hd series"
  by (induction k) (simp_all add: hd_ema)

lemma tillsonT3Series_passes:
  "tillsonT3Series pw hs ls cs len a =
     (let src = map (\<lambda>i. (idx hs i + idx ls i + Fin 2 * idx cs i) / Fin 4) [0..<length cs];
          c1 = - pw a (Fin 3);
          c2 = Fin 3 * pw a (Fin 2) + Fin 3 * pw a (Fin 3);
          c3 = Fin (- 6) * pw a (Fin 2) - Fin 3 * a - Fin 3 * pw a (Fin 3);
          c4 = Fin 1 + Fin 3 * a + pw a (Fin 3) + Fin 3 * pw a (Fin 2)
      in map (\<lambda>i. c1 * idx (ema_passes 6 src len) i + c2 * idx (ema_passes 5 src len) i
                   + c3 * idx (ema_passes 4 src len) i + c4 * idx (ema_passes 3 src len) i)
           [0..<length cs])"
  by (simp add: tillsonT3Series_def Let_def eval_nat_numeral length_ema)

subsection \<open>The error of one rounding\<close>

text \<open>
  In the normal range a rounding moves a value by at most the fraction \<open>2 ^ - 53\<close> of
  its magnitude.  The lemmas after it restate this for a product and a sum, with every
  quantity divided by a reference value \<open>v\<close>.
\<close>

lemma round_half_even_err: "\<bar>rat_of_int (round_half_even y) - y\<bar> \<le> 1 / 2"
proof -
  have "rat_of_int \<lfloor>y\<rfloor> \<le> y" "y < rat_of_int \<lfloor>y\<rfloor> + 1"
    by linarith+
  then show ?thesis
    by (auto simp: round_half_even_def Let_def)
qed

lemma powi2_le_imp: "(2::rat) powi a \<le> x \<Longrightarrow> x < 2 powi b \<Longrightarrow> a < b"
  by (rule powi2_less_imp) simp

lemma round_ne_normal:
  assumes lo: "1 / 2 ^ 1022 \<le> \<bar>x\<bar>" and hi: "\<bar>x\<bar> < 2 ^ 1023"
  shows "\<exists>r. round_ne x = Fin r \<and> \<bar>r - x\<bar> \<le> \<bar>x\<bar> / 2 ^ 53"
proof -
  define L where "L = ilog2 \<bar>x\<bar>"
  define q where "q = \<bar>x\<bar> / 2 powi (L - 52)"
  define n where "n = round_half_even q"
  define y where "y = rat_of_int n * 2 powi (L - 52)"
  from lo have xpos: "0 < \<bar>x\<bar>"
    by (rule less_le_trans [rotated]) simp
  then have x0: "x \<noteq> 0" by simp
  from ilog2_bounds [OF xpos]
  have Llo: "2 powi L \<le> \<bar>x\<bar>" and Lhi: "\<bar>x\<bar> < 2 powi (L + 1)"
    by (simp_all add: L_def)
  have "(2::rat) powi (- 1022) \<le> \<bar>x\<bar>"
    using lo by (simp add: power_int_minus_divide)
  from powi2_le_imp [OF this Lhi] have L1: "- 1022 \<le> L" by simp
  have "\<bar>x\<bar> < (2::rat) powi 1023"
    using hi by simp
  from powi2_le_imp [OF Llo this] have L2: "L \<le> 1022" by simp
  have e: "max (L - 52) (- 1074) = L - 52"
    using L1 by simp
  have ppos: "0 < (2::rat) powi (L - 52)" by simp
  have split: "(2::rat) powi L = 2 powi (L - 52) * 2 ^ 52"
    using power_int_add [of "2::rat" "L - 52" 52] by simp
  have q52: "2 ^ 52 \<le> q"
    unfolding q_def using Llo ppos by (simp add: pos_le_divide_eq split mult.commute)
  have nq: "\<bar>rat_of_int n - q\<bar> \<le> 1 / 2"
    unfolding n_def by (rule round_half_even_err)
  have "(1::rat) \<le> 2 ^ 52" by simp
  with nq q52 have "0 < rat_of_int n"
    by linarith
  then have npos: "0 < n" by simp
  have yx: "\<bar>y - \<bar>x\<bar>\<bar> = \<bar>rat_of_int n - q\<bar> * 2 powi (L - 52)"
  proof -
    have "y - \<bar>x\<bar> = (rat_of_int n - q) * 2 powi (L - 52)"
      using ppos by (simp add: y_def q_def algebra_simps)
    then show ?thesis
      using ppos by (simp add: abs_mult)
  qed
  have err: "\<bar>y - \<bar>x\<bar>\<bar> \<le> \<bar>x\<bar> / 2 ^ 53"
  proof -
    have "\<bar>y - \<bar>x\<bar>\<bar> \<le> 1 / 2 * 2 powi (L - 52)"
      unfolding yx using nq ppos by (intro mult_right_mono) simp_all
    also have "\<dots> = 2 powi L / 2 ^ 53"
      by (simp add: split)
    also have "\<dots> \<le> \<bar>x\<bar> / 2 ^ 53"
      using Llo by (simp add: divide_right_mono)
    finally show ?thesis .
  qed
  have ybound: "y < 2 ^ 1024"
  proof -
    from err have "y \<le> \<bar>x\<bar> + \<bar>x\<bar> / 2 ^ 53"
      by linarith
    also have "\<dots> < 2 ^ 1023 + 2 ^ 1023 / 2 ^ 53"
      using hi by (intro add_strict_mono divide_strict_right_mono) simp_all
    also have "\<dots> < (2::rat) ^ 1024"
      by simp
    finally show ?thesis .
  qed
  have ypos: "0 < y"
    unfolding y_def using npos ppos by simp
  have e': "max (ilog2 \<bar>x\<bar> - 52) (- 1074) = ilog2 \<bar>x\<bar> - 52"
    using e by (simp only: L_def)
  have "round_ne x =
          (if 2 ^ 1024 \<le> y then inf_signed (x < 0)
           else if n = 0 then zero_signed (x < 0)
           else Fin (if x < 0 then - y else y))"
    unfolding round_ne_def Let_def y_def n_def q_def L_def
    by (simp only: x0 e' if_False)
  moreover from ybound have "\<not> 2 ^ 1024 \<le> y"
    by (simp only: not_le)
  moreover from npos have "n \<noteq> 0"
    by simp
  ultimately have rn: "round_ne x = Fin (if x < 0 then - y else y)"
    by (simp only: if_False)
  have "\<bar>(if x < 0 then - y else y) - x\<bar> = \<bar>y - \<bar>x\<bar>\<bar>"
    by (cases "x < 0") (simp_all add: abs_if)
  with err rn show ?thesis
    by simp
qed


lemma ratio_abs: "v \<noteq> 0 \<Longrightarrow> \<bar>x / v - y / v\<bar> = \<bar>x - y\<bar> / \<bar>v\<bar>" for v :: rat
  by (simp add: diff_divide_distrib [symmetric])

lemma close_to_ratio:
  "v \<noteq> 0 \<Longrightarrow> close_to D v a = (\<exists>r. a = Fin r \<and> \<bar>r / v - 1\<bar> \<le> D)"
proof -
  assume v: "v \<noteq> 0"
  have "\<bar>r / v - 1\<bar> \<le> D \<longleftrightarrow> \<bar>r - v\<bar> \<le> D * \<bar>v\<bar>" for r
    using ratio_abs [OF v, of r v] v by (simp add: pos_divide_le_eq)
  then show ?thesis
    by (simp add: close_to_def)
qed

lemma round_rel:
  assumes v: "1 / 2 ^ 1000 \<le> \<bar>v\<bar>" "\<bar>v\<bar> \<le> 2 ^ 1000"
    and t: "1 / 2 ^ 10 \<le> t / v" "t / v \<le> 2 ^ 10"
  shows "\<exists>r. round_ne t = Fin r \<and> \<bar>r / v - t / v\<bar> \<le> (t / v) / 2 ^ 53"
proof -
  from v(1) have vpos: "0 < \<bar>v\<bar>"
    by (rule less_le_trans [rotated]) simp
  then have v0: "v \<noteq> 0" by simp
  from t(1) have tpos: "0 < t / v"
    by (rule less_le_trans [rotated]) simp
  have abs_t: "\<bar>t\<bar> = (t / v) * \<bar>v\<bar>"
  proof -
    have "\<bar>t\<bar> / \<bar>v\<bar> = \<bar>t / v\<bar>"
      by (simp only: abs_divide)
    also have "\<dots> = t / v"
      using tpos by (rule abs_of_pos)
    finally show ?thesis
      using vpos by (simp add: field_simps)
  qed
  have "1 / 2 ^ 10 * (1 / 2 ^ 1000) \<le> (t / v) * \<bar>v\<bar>"
  proof (rule mult_mono [OF t(1) v(1)])
    show "0 \<le> t / v" using tpos by (rule less_imp_le)
    show "0 \<le> (1::rat) / 2 ^ 1000" by simp
  qed
  then have lo: "1 / 2 ^ 1022 \<le> \<bar>t\<bar>"
    unfolding abs_t by (rule order_trans [rotated]) simp
  have "(t / v) * \<bar>v\<bar> \<le> 2 ^ 10 * 2 ^ 1000"
  proof (rule mult_mono [OF t(2) v(2)])
    show "0 \<le> (2::rat) ^ 10" by simp
    show "0 \<le> \<bar>v\<bar>" by simp
  qed
  then have hi: "\<bar>t\<bar> < 2 ^ 1023"
    unfolding abs_t by (rule le_less_trans) simp
  from round_ne_normal [OF lo hi]
  obtain r where r: "round_ne t = Fin r" and err: "\<bar>r - t\<bar> \<le> \<bar>t\<bar> / 2 ^ 53"
    by blast
  have "\<bar>r / v - t / v\<bar> = \<bar>r - t\<bar> / \<bar>v\<bar>"
    by (rule ratio_abs [OF v0])
  also have "\<dots> \<le> (\<bar>t\<bar> / 2 ^ 53) / \<bar>v\<bar>"
    by (rule divide_right_mono [OF err]) simp
  also have "\<dots> = (t / v) / 2 ^ 53"
    using vpos by (simp add: abs_t)
  finally show ?thesis
    using r by blast
qed

lemma mul_rel:
  assumes v: "1 / 2 ^ 1000 \<le> \<bar>v\<bar>" "\<bar>v\<bar> \<le> 2 ^ 1000"
    and t: "1 / 2 ^ 10 \<le> (a / v) * c" "(a / v) * c \<le> 2 ^ 10"
  shows "\<exists>p. Fin a * Fin c = Fin p \<and> \<bar>p / v - (a / v) * c\<bar> \<le> ((a / v) * c) / 2 ^ 53"
proof -
  have eq: "(a * c) / v = (a / v) * c" by simp
  from t(1) have "0 < (a / v) * c"
    by (rule less_le_trans [rotated]) simp
  then have nz: "a * c \<noteq> 0" by auto
  have "Fin a * Fin c = round_ne (a * c)"
    using nz by (simp add: times_number_def nmul_def)
  moreover from round_rel [OF v, of "a * c"] t
  obtain p where "round_ne (a * c) = Fin p"
    and "\<bar>p / v - (a * c) / v\<bar> \<le> ((a * c) / v) / 2 ^ 53"
    unfolding eq by blast
  ultimately show ?thesis
    unfolding eq by simp
qed

lemma add_rel:
  assumes v: "1 / 2 ^ 1000 \<le> \<bar>v\<bar>" "\<bar>v\<bar> \<le> 2 ^ 1000"
    and t: "1 / 2 ^ 10 \<le> p / v + q / v" "p / v + q / v \<le> 2 ^ 10"
  shows "\<exists>s. Fin p + Fin q = Fin s
             \<and> \<bar>s / v - (p / v + q / v)\<bar> \<le> (p / v + q / v) / 2 ^ 53"
proof -
  have eq: "(p + q) / v = p / v + q / v" by (simp add: add_divide_distrib)
  from t(1) have "0 < p / v + q / v"
    by (rule less_le_trans [rotated]) simp
  then have nz: "p + q \<noteq> 0" unfolding eq [symmetric] by auto
  have "Fin p + Fin q = round_ne (p + q)"
    using nz by (simp add: plus_number_def nadd_def)
  moreover from round_rel [OF v, of "p + q"] t
  obtain s where "round_ne (p + q) = Fin s"
    and "\<bar>s / v - (p + q) / v\<bar> \<le> ((p + q) / v) / 2 ^ 53"
    unfolding eq by blast
  ultimately show ?thesis
    unfolding eq by simp
qed


text \<open>
  One step of the loop of \<open>ema\<close> with the multiplier of window length 8 (\<open>w1\<close>), and
  with that of window length 5 (\<open>w2\<close>): if the input element is within \<open>D\<close> of \<open>v\<close>
  and the previous result within \<open>D + 10 / 2 ^ 53\<close>, so is the new result.
\<close>

lemma step_arith_w1:
  fixes al be p1 p2 s D :: rat
  assumes "1 - D \<le> al" "al \<le> 1 + D"
    and "1 - (D + 10 / 2 ^ 53) \<le> be" "be \<le> 1 + (D + 10 / 2 ^ 53)"
    and "al * (2001599834386887 / 9007199254740992) - (al * (2001599834386887 / 9007199254740992)) / 2 ^ 53 \<le> p1"
    and "p1 \<le> al * (2001599834386887 / 9007199254740992) + (al * (2001599834386887 / 9007199254740992)) / 2 ^ 53"
    and "be * (7005599420354105 / 9007199254740992) - (be * (7005599420354105 / 9007199254740992)) / 2 ^ 53 \<le> p2"
    and "p2 \<le> be * (7005599420354105 / 9007199254740992) + (be * (7005599420354105 / 9007199254740992)) / 2 ^ 53"
    and "(p1 + p2) - (p1 + p2) / 2 ^ 53 \<le> s"
    and "s \<le> (p1 + p2) + (p1 + p2) / 2 ^ 53"
    and "0 \<le> D" "D \<le> 50 / 2 ^ 53"
  shows "\<bar>s - 1\<bar> \<le> D + 10 / 2 ^ 53"
  using assms by (simp add: abs_diff_le_iff add_divide_distrib)

lemma step_close_w1:
  assumes v: "1 / 2 ^ 1000 \<le> \<bar>v\<bar>" "\<bar>v\<bar> \<le> 2 ^ 1000"
    and D: "0 \<le> D" "D \<le> 50 / 2 ^ 53"
    and x: "close_to D v x"
    and p: "close_to (D + 10 / 2 ^ 53) v prev"
  shows "close_to (D + 10 / 2 ^ 53) v
           (x * Fin (2001599834386887 / 9007199254740992) + prev * Fin (7005599420354105 / 9007199254740992))"
proof -
  from v(1) have "0 < \<bar>v\<bar>"
    by (rule less_le_trans [rotated]) simp
  then have v0: "v \<noteq> 0" by simp
  from x obtain a where xa: "x = Fin a" and "\<bar>a / v - 1\<bar> \<le> D"
    unfolding close_to_ratio [OF v0] by blast
  then have a: "1 - D \<le> a / v" "a / v \<le> 1 + D"
    by (simp_all only: abs_diff_le_iff)
  from p obtain b where pb: "prev = Fin b" and "\<bar>b / v - 1\<bar> \<le> D + 10 / 2 ^ 53"
    unfolding close_to_ratio [OF v0] by blast
  then have b: "1 - (D + 10 / 2 ^ 53) \<le> b / v" "b / v \<le> 1 + (D + 10 / 2 ^ 53)"
    by (simp_all only: abs_diff_le_iff)
  have ra: "1 / 2 ^ 10 \<le> (a / v) * (2001599834386887 / 9007199254740992)" "(a / v) * (2001599834386887 / 9007199254740992) \<le> 2 ^ 10"
    using a D by simp_all
  from mul_rel [OF v ra]
  obtain p1 where m1: "Fin a * Fin (2001599834386887 / 9007199254740992) = Fin p1"
    and "\<bar>p1 / v - (a / v) * (2001599834386887 / 9007199254740992)\<bar> \<le> ((a / v) * (2001599834386887 / 9007199254740992)) / 2 ^ 53"
    by blast
  then have p1: "(a / v) * (2001599834386887 / 9007199254740992) - ((a / v) * (2001599834386887 / 9007199254740992)) / 2 ^ 53 \<le> p1 / v"
      "p1 / v \<le> (a / v) * (2001599834386887 / 9007199254740992) + ((a / v) * (2001599834386887 / 9007199254740992)) / 2 ^ 53"
    by (simp_all only: abs_diff_le_iff)
  have rb: "1 / 2 ^ 10 \<le> (b / v) * (7005599420354105 / 9007199254740992)" "(b / v) * (7005599420354105 / 9007199254740992) \<le> 2 ^ 10"
    using b D by simp_all
  from mul_rel [OF v rb]
  obtain p2 where m2: "Fin b * Fin (7005599420354105 / 9007199254740992) = Fin p2"
    and "\<bar>p2 / v - (b / v) * (7005599420354105 / 9007199254740992)\<bar> \<le> ((b / v) * (7005599420354105 / 9007199254740992)) / 2 ^ 53"
    by blast
  then have p2: "(b / v) * (7005599420354105 / 9007199254740992) - ((b / v) * (7005599420354105 / 9007199254740992)) / 2 ^ 53 \<le> p2 / v"
      "p2 / v \<le> (b / v) * (7005599420354105 / 9007199254740992) + ((b / v) * (7005599420354105 / 9007199254740992)) / 2 ^ 53"
    by (simp_all only: abs_diff_le_iff)
  have rs: "1 / 2 ^ 10 \<le> p1 / v + p2 / v" "p1 / v + p2 / v \<le> 2 ^ 10"
    using a b p1 p2 D by simp_all
  from add_rel [OF v rs]
  obtain s where sm: "Fin p1 + Fin p2 = Fin s"
    and "\<bar>s / v - (p1 / v + p2 / v)\<bar> \<le> (p1 / v + p2 / v) / 2 ^ 53"
    by blast
  then have s: "(p1 / v + p2 / v) - (p1 / v + p2 / v) / 2 ^ 53 \<le> s / v"
      "s / v \<le> (p1 / v + p2 / v) + (p1 / v + p2 / v) / 2 ^ 53"
    by (simp_all only: abs_diff_le_iff)
  have "\<bar>s / v - 1\<bar> \<le> D + 10 / 2 ^ 53"
    by (rule step_arith_w1 [OF a b p1 p2 s D])
  moreover have "x * Fin (2001599834386887 / 9007199254740992) + prev * Fin (7005599420354105 / 9007199254740992) = Fin s"
    by (simp only: xa pb m1 m2 sm)
  ultimately show ?thesis
    unfolding close_to_ratio [OF v0] by blast
qed

lemma step_arith_w2:
  fixes al be p1 p2 s D :: rat
  assumes "1 - D \<le> al" "al \<le> 1 + D"
    and "1 - (D + 10 / 2 ^ 53) \<le> be" "be \<le> 1 + (D + 10 / 2 ^ 53)"
    and "al * (6004799503160661 / 18014398509481984) - (al * (6004799503160661 / 18014398509481984)) / 2 ^ 53 \<le> p1"
    and "p1 \<le> al * (6004799503160661 / 18014398509481984) + (al * (6004799503160661 / 18014398509481984)) / 2 ^ 53"
    and "be * (3002399751580331 / 4503599627370496) - (be * (3002399751580331 / 4503599627370496)) / 2 ^ 53 \<le> p2"
    and "p2 \<le> be * (3002399751580331 / 4503599627370496) + (be * (3002399751580331 / 4503599627370496)) / 2 ^ 53"
    and "(p1 + p2) - (p1 + p2) / 2 ^ 53 \<le> s"
    and "s \<le> (p1 + p2) + (p1 + p2) / 2 ^ 53"
    and "0 \<le> D" "D \<le> 50 / 2 ^ 53"
  shows "\<bar>s - 1\<bar> \<le> D + 10 / 2 ^ 53"
  using assms by (simp add: abs_diff_le_iff add_divide_distrib)

lemma step_close_w2:
  assumes v: "1 / 2 ^ 1000 \<le> \<bar>v\<bar>" "\<bar>v\<bar> \<le> 2 ^ 1000"
    and D: "0 \<le> D" "D \<le> 50 / 2 ^ 53"
    and x: "close_to D v x"
    and p: "close_to (D + 10 / 2 ^ 53) v prev"
  shows "close_to (D + 10 / 2 ^ 53) v
           (x * Fin (6004799503160661 / 18014398509481984) + prev * Fin (3002399751580331 / 4503599627370496))"
proof -
  from v(1) have "0 < \<bar>v\<bar>"
    by (rule less_le_trans [rotated]) simp
  then have v0: "v \<noteq> 0" by simp
  from x obtain a where xa: "x = Fin a" and "\<bar>a / v - 1\<bar> \<le> D"
    unfolding close_to_ratio [OF v0] by blast
  then have a: "1 - D \<le> a / v" "a / v \<le> 1 + D"
    by (simp_all only: abs_diff_le_iff)
  from p obtain b where pb: "prev = Fin b" and "\<bar>b / v - 1\<bar> \<le> D + 10 / 2 ^ 53"
    unfolding close_to_ratio [OF v0] by blast
  then have b: "1 - (D + 10 / 2 ^ 53) \<le> b / v" "b / v \<le> 1 + (D + 10 / 2 ^ 53)"
    by (simp_all only: abs_diff_le_iff)
  have ra: "1 / 2 ^ 10 \<le> (a / v) * (6004799503160661 / 18014398509481984)" "(a / v) * (6004799503160661 / 18014398509481984) \<le> 2 ^ 10"
    using a D by simp_all
  from mul_rel [OF v ra]
  obtain p1 where m1: "Fin a * Fin (6004799503160661 / 18014398509481984) = Fin p1"
    and "\<bar>p1 / v - (a / v) * (6004799503160661 / 18014398509481984)\<bar> \<le> ((a / v) * (6004799503160661 / 18014398509481984)) / 2 ^ 53"
    by blast
  then have p1: "(a / v) * (6004799503160661 / 18014398509481984) - ((a / v) * (6004799503160661 / 18014398509481984)) / 2 ^ 53 \<le> p1 / v"
      "p1 / v \<le> (a / v) * (6004799503160661 / 18014398509481984) + ((a / v) * (6004799503160661 / 18014398509481984)) / 2 ^ 53"
    by (simp_all only: abs_diff_le_iff)
  have rb: "1 / 2 ^ 10 \<le> (b / v) * (3002399751580331 / 4503599627370496)" "(b / v) * (3002399751580331 / 4503599627370496) \<le> 2 ^ 10"
    using b D by simp_all
  from mul_rel [OF v rb]
  obtain p2 where m2: "Fin b * Fin (3002399751580331 / 4503599627370496) = Fin p2"
    and "\<bar>p2 / v - (b / v) * (3002399751580331 / 4503599627370496)\<bar> \<le> ((b / v) * (3002399751580331 / 4503599627370496)) / 2 ^ 53"
    by blast
  then have p2: "(b / v) * (3002399751580331 / 4503599627370496) - ((b / v) * (3002399751580331 / 4503599627370496)) / 2 ^ 53 \<le> p2 / v"
      "p2 / v \<le> (b / v) * (3002399751580331 / 4503599627370496) + ((b / v) * (3002399751580331 / 4503599627370496)) / 2 ^ 53"
    by (simp_all only: abs_diff_le_iff)
  have rs: "1 / 2 ^ 10 \<le> p1 / v + p2 / v" "p1 / v + p2 / v \<le> 2 ^ 10"
    using a b p1 p2 D by simp_all
  from add_rel [OF v rs]
  obtain s where sm: "Fin p1 + Fin p2 = Fin s"
    and "\<bar>s / v - (p1 / v + p2 / v)\<bar> \<le> (p1 / v + p2 / v) / 2 ^ 53"
    by blast
  then have s: "(p1 / v + p2 / v) - (p1 / v + p2 / v) / 2 ^ 53 \<le> s / v"
      "s / v \<le> (p1 / v + p2 / v) + (p1 / v + p2 / v) / 2 ^ 53"
    by (simp_all only: abs_diff_le_iff)
  have "\<bar>s / v - 1\<bar> \<le> D + 10 / 2 ^ 53"
    by (rule step_arith_w2 [OF a b p1 p2 s D])
  moreover have "x * Fin (6004799503160661 / 18014398509481984) + prev * Fin (3002399751580331 / 4503599627370496) = Fin s"
    by (simp only: xa pb m1 m2 sm)
  ultimately show ?thesis
    unfolding close_to_ratio [OF v0] by blast
qed



subsection \<open>Single operations\<close>

text \<open>
  The operations that occur when the indicator runs on the series 1, \<dots>, 1, 2 and on
  the series 1, \<dots>, 1 with the program's two parameter pairs, each with its exact result.
\<close>

lemma dv_1: "Fin 1 + Fin 1 = Fin 2"
proof -
  have "ilog2 (2) = 1"
    by (rule ilog2_eq) simp_all
  then show ?thesis
    by (simp add: plus_number_def nadd_def round_ne_def round_half_even_def Let_def
          floor_rat_numeral)
qed

lemma dv_2: "Fin 2 * Fin 1 = Fin 2"
proof -
  have "ilog2 (2) = 1"
    by (rule ilog2_eq) simp_all
  then show ?thesis
    by (simp add: times_number_def nmul_def round_ne_def round_half_even_def Let_def
          floor_rat_numeral)
qed

lemma dv_3: "Fin 2 + Fin 2 = Fin 4"
proof -
  have "ilog2 (4) = 2"
    by (rule ilog2_eq) simp_all
  then show ?thesis
    by (simp add: plus_number_def nadd_def round_ne_def round_half_even_def Let_def
          floor_rat_numeral)
qed

lemma dv_4: "Fin 4 / Fin 4 = Fin 1"
proof -
  have "ilog2 (1) = 0"
    by (rule ilog2_eq) simp_all
  then show ?thesis
    by (simp add: divide_number_def ndiv_def round_ne_def round_half_even_def Let_def
          floor_rat_numeral)
qed

lemma dv_5: "Fin 2 * Fin 2 = Fin 4"
proof -
  have "ilog2 (4) = 2"
    by (rule ilog2_eq) simp_all
  then show ?thesis
    by (simp add: times_number_def nmul_def round_ne_def round_half_even_def Let_def
          floor_rat_numeral)
qed

lemma dv_6: "Fin 4 + Fin 4 = Fin 8"
proof -
  have "ilog2 (8) = 3"
    by (rule ilog2_eq) simp_all
  then show ?thesis
    by (simp add: plus_number_def nadd_def round_ne_def round_half_even_def Let_def
          floor_rat_numeral)
qed

lemma dv_7: "Fin 8 / Fin 4 = Fin 2"
proof -
  have "ilog2 (2) = 1"
    by (rule ilog2_eq) simp_all
  then show ?thesis
    by (simp add: divide_number_def ndiv_def round_ne_def round_half_even_def Let_def
          floor_rat_numeral)
qed

lemma dv_8: "Fin 8 + Fin 1 = Fin 9"
proof -
  have "ilog2 (9) = 3"
    by (rule ilog2_eq) simp_all
  then show ?thesis
    by (simp add: plus_number_def nadd_def round_ne_def round_half_even_def Let_def
          floor_rat_numeral)
qed

lemma dv_9: "Fin 2 / Fin 9 = Fin (2001599834386887 / 9007199254740992)"
proof -
  have "ilog2 (2 / 9) = - 3"
    by (rule ilog2_eq) simp_all
  then show ?thesis
    by (simp add: divide_number_def ndiv_def round_ne_def round_half_even_def Let_def
          floor_rat_numeral)
qed

lemma dv_10: "Fin 1 * Fin (2001599834386887 / 9007199254740992) = Fin (2001599834386887 / 9007199254740992)"
proof -
  have "ilog2 (2001599834386887 / 9007199254740992) = - 3"
    by (rule ilog2_eq) simp_all
  then show ?thesis
    by (simp add: times_number_def nmul_def round_ne_def round_half_even_def Let_def
          floor_rat_numeral)
qed

lemma dv_11: "Fin 1 - Fin (2001599834386887 / 9007199254740992) = Fin (7005599420354105 / 9007199254740992)"
proof -
  have "ilog2 (7005599420354105 / 9007199254740992) = - 1"
    by (rule ilog2_eq) simp_all
  then show ?thesis
    by (simp add: minus_number_def nadd_def nneg_def round_ne_def round_half_even_def Let_def
          floor_rat_numeral)
qed

lemma dv_12: "Fin 1 * Fin (7005599420354105 / 9007199254740992) = Fin (7005599420354105 / 9007199254740992)"
proof -
  have "ilog2 (7005599420354105 / 9007199254740992) = - 1"
    by (rule ilog2_eq) simp_all
  then show ?thesis
    by (simp add: times_number_def nmul_def round_ne_def round_half_even_def Let_def
          floor_rat_numeral)
qed

lemma dv_13: "Fin (2001599834386887 / 9007199254740992) + Fin (7005599420354105 / 9007199254740992) = Fin 1"
proof -
  have "ilog2 (1) = 0"
    by (rule ilog2_eq) simp_all
  then show ?thesis
    by (simp add: plus_number_def nadd_def round_ne_def round_half_even_def Let_def
          floor_rat_numeral)
qed

lemma dv_14: "Fin 2 * Fin (2001599834386887 / 9007199254740992) = Fin (2001599834386887 / 4503599627370496)"
proof -
  have "ilog2 (2001599834386887 / 4503599627370496) = - 2"
    by (rule ilog2_eq) simp_all
  then show ?thesis
    by (simp add: times_number_def nmul_def round_ne_def round_half_even_def Let_def
          floor_rat_numeral)
qed

lemma dv_15: "Fin (2001599834386887 / 4503599627370496) + Fin (7005599420354105 / 9007199254740992) = Fin (1376099886140985 / 1125899906842624)"
proof -
  have "ilog2 (11008799089127879 / 9007199254740992) = 0"
    by (rule ilog2_eq) simp_all
  then show ?thesis
    by (simp add: plus_number_def nadd_def round_ne_def round_half_even_def Let_def
          floor_rat_numeral)
qed

lemma dv_16: "Fin (1376099886140985 / 1125899906842624) * Fin (2001599834386887 / 9007199254740992) = Fin (2446399797583973 / 9007199254740992)"
proof -
  have "ilog2 (2754401304199609633245917263695 / 10141204801825835211973625643008) = - 2"
    by (rule ilog2_eq) simp_all
  then show ?thesis
    by (simp add: times_number_def nmul_def round_ne_def round_half_even_def Let_def
          floor_rat_numeral)
qed

lemma dv_17: "Fin (2446399797583973 / 9007199254740992) + Fin (7005599420354105 / 9007199254740992) = Fin (4725999608969039 / 4503599627370496)"
proof -
  have "ilog2 (4725999608969039 / 4503599627370496) = 0"
    by (rule ilog2_eq) simp_all
  then show ?thesis
    by (simp add: plus_number_def nadd_def round_ne_def round_half_even_def Let_def
          floor_rat_numeral)
qed

lemma dv_18: "Fin (4725999608969039 / 4503599627370496) * Fin (2001599834386887 / 9007199254740992) = Fin (1050222135326453 / 4503599627370496)"
proof -
  have "ilog2 (9459560034624921184254730591593 / 40564819207303340847894502572032) = - 3"
    by (rule ilog2_eq) simp_all
  then show ?thesis
    by (simp add: times_number_def nmul_def round_ne_def round_half_even_def Let_def
          floor_rat_numeral)
qed

lemma dv_19: "Fin (1050222135326453 / 4503599627370496) + Fin (7005599420354105 / 9007199254740992) = Fin (2276510922751753 / 2251799813685248)"
proof -
  have "ilog2 (9106043691007011 / 9007199254740992) = 0"
    by (rule ilog2_eq) simp_all
  then show ?thesis
    by (simp add: plus_number_def nadd_def round_ne_def round_half_even_def Let_def
          floor_rat_numeral)
qed

lemma dv_20: "Fin (2276510922751753 / 2251799813685248) * Fin (2001599834386887 / 9007199254740992) = Fin (8094261058672899 / 36028797018963968)"
proof -
  have "ilog2 (4556663885959848109379659462911 / 20282409603651670423947251286016) = - 3"
    by (rule ilog2_eq) simp_all
  then show ?thesis
    by (simp add: times_number_def nmul_def round_ne_def round_half_even_def Let_def
          floor_rat_numeral)
qed

lemma dv_21: "Fin (8094261058672899 / 36028797018963968) + Fin (7005599420354105 / 9007199254740992) = Fin (4514582342511165 / 4503599627370496)"
proof -
  have "ilog2 (36116658740089319 / 36028797018963968) = 0"
    by (rule ilog2_eq) simp_all
  then show ?thesis
    by (simp add: plus_number_def nadd_def round_ne_def round_half_even_def Let_def
          floor_rat_numeral)
qed

lemma dv_22: "Fin (4514582342511165 / 4503599627370496) * Fin (2001599834386887 / 9007199254740992) = Fin (8025924164464293 / 36028797018963968)"
proof -
  have "ilog2 (9036387269096312225893727093355 / 40564819207303340847894502572032) = - 3"
    by (rule ilog2_eq) simp_all
  then show ?thesis
    by (simp add: times_number_def nmul_def round_ne_def round_half_even_def Let_def
          floor_rat_numeral)
qed

lemma dv_23: "Fin (8025924164464293 / 36028797018963968) + Fin (7005599420354105 / 9007199254740992) = Fin (4506040230735089 / 4503599627370496)"
proof -
  have "ilog2 (36048321845880713 / 36028797018963968) = 0"
    by (rule ilog2_eq) simp_all
  then show ?thesis
    by (simp add: plus_number_def nadd_def round_ne_def round_half_even_def Let_def
          floor_rat_numeral)
qed

lemma dv_24: "Fin (4506040230735089 / 4503599627370496) * Fin (2001599834386887 / 9007199254740992) = Fin (8010738187973491 / 36028797018963968)"
proof -
  have "ilog2 (9019289379580004227123632377943 / 40564819207303340847894502572032) = - 3"
    by (rule ilog2_eq) simp_all
  then show ?thesis
    by (simp add: times_number_def nmul_def round_ne_def round_half_even_def Let_def
          floor_rat_numeral)
qed

lemma dv_25: "Fin (8010738187973491 / 36028797018963968) + Fin (7005599420354105 / 9007199254740992) = Fin (4504141983673739 / 4503599627370496)"
proof -
  have "ilog2 (36033135869389911 / 36028797018963968) = 0"
    by (rule ilog2_eq) simp_all
  then show ?thesis
    by (simp add: plus_number_def nadd_def round_ne_def round_half_even_def Let_def
          floor_rat_numeral)
qed

lemma dv_26: "Fin (3152519739159347 / 4503599627370496) * Fin (3152519739159347 / 4503599627370496) = Fin (8827055269646171 / 18014398509481984)"
proof -
  have "ilog2 (9938380705789317246726257466409 / 20282409603651670423947251286016) = - 2"
    by (rule ilog2_eq) simp_all
  then show ?thesis
    by (simp add: times_number_def nmul_def round_ne_def round_half_even_def Let_def
          floor_rat_numeral)
qed

lemma dv_27: "Fin (8827055269646171 / 18014398509481984) * Fin (3152519739159347 / 4503599627370496) = Fin (6178938688752319 / 18014398509481984)"
proof -
  have "ilog2 (27827465976210086399321677410337 / 81129638414606681695789005144064) = - 2"
    by (rule ilog2_eq) simp_all
  then show ?thesis
    by (simp add: times_number_def nmul_def round_ne_def round_half_even_def Let_def
          floor_rat_numeral)
qed

lemma dv_28: "Fin 3 * Fin (8827055269646171 / 18014398509481984) = Fin (1655072863058657 / 1125899906842624)"
proof -
  have "ilog2 (26481165808938513 / 18014398509481984) = 0"
    by (rule ilog2_eq) simp_all
  then show ?thesis
    by (simp add: times_number_def nmul_def round_ne_def round_half_even_def Let_def
          floor_rat_numeral)
qed

lemma dv_29: "Fin 3 * Fin (6178938688752319 / 18014398509481984) = Fin (4634204016564239 / 4503599627370496)"
proof -
  have "ilog2 (18536816066256957 / 18014398509481984) = 0"
    by (rule ilog2_eq) simp_all
  then show ?thesis
    by (simp add: times_number_def nmul_def round_ne_def round_half_even_def Let_def
          floor_rat_numeral)
qed

lemma dv_30: "Fin (1655072863058657 / 1125899906842624) + Fin (4634204016564239 / 4503599627370496) = Fin (2813623867199717 / 1125899906842624)"
proof -
  have "ilog2 (11254495468798867 / 4503599627370496) = 1"
    by (rule ilog2_eq) simp_all
  then show ?thesis
    by (simp add: plus_number_def nadd_def round_ne_def round_half_even_def Let_def
          floor_rat_numeral)
qed

lemma dv_31: "Fin (- 6) * Fin (8827055269646171 / 18014398509481984) = Fin (- (1655072863058657 / 562949953421312))"
proof -
  have "ilog2 (26481165808938513 / 9007199254740992) = 1"
    by (rule ilog2_eq) simp_all
  then show ?thesis
    by (simp add: times_number_def nmul_def round_ne_def round_half_even_def Let_def
          floor_rat_numeral)
qed

lemma dv_32: "Fin 3 * Fin (3152519739159347 / 4503599627370496) = Fin (1182194902184755 / 562949953421312)"
proof -
  have "ilog2 (9457559217478041 / 4503599627370496) = 1"
    by (rule ilog2_eq) simp_all
  then show ?thesis
    by (simp add: times_number_def nmul_def round_ne_def round_half_even_def Let_def
          floor_rat_numeral)
qed

lemma dv_33: "Fin (- (1655072863058657 / 562949953421312)) - Fin (1182194902184755 / 562949953421312) = Fin (- (709316941310853 / 140737488355328))"
proof -
  have "ilog2 (709316941310853 / 140737488355328) = 2"
    by (rule ilog2_eq) simp_all
  then show ?thesis
    by (simp add: minus_number_def nadd_def nneg_def round_ne_def round_half_even_def Let_def
          floor_rat_numeral)
qed

lemma dv_34: "Fin (- (709316941310853 / 140737488355328)) - Fin (4634204016564239 / 4503599627370496) = Fin (- (1708271633656971 / 281474976710656))"
proof -
  have "ilog2 (27332346138511535 / 4503599627370496) = 2"
    by (rule ilog2_eq) simp_all
  then show ?thesis
    by (simp add: minus_number_def nadd_def nneg_def round_ne_def round_half_even_def Let_def
          floor_rat_numeral)
qed

lemma dv_35: "Fin 1 + Fin (1182194902184755 / 562949953421312) = Fin (1745144855606067 / 562949953421312)"
proof -
  have "ilog2 (1745144855606067 / 562949953421312) = 1"
    by (rule ilog2_eq) simp_all
  then show ?thesis
    by (simp add: plus_number_def nadd_def round_ne_def round_half_even_def Let_def
          floor_rat_numeral)
qed

lemma dv_36: "Fin (1745144855606067 / 562949953421312) + Fin (6178938688752319 / 18014398509481984) = Fin (1938236689629577 / 562949953421312)"
proof -
  have "ilog2 (62023574068146463 / 18014398509481984) = 1"
    by (rule ilog2_eq) simp_all
  then show ?thesis
    by (simp add: plus_number_def nadd_def round_ne_def round_half_even_def Let_def
          floor_rat_numeral)
qed

lemma dv_37: "Fin (1938236689629577 / 562949953421312) + Fin (1655072863058657 / 1125899906842624) = Fin (5531546242317811 / 1125899906842624)"
proof -
  have "ilog2 (5531546242317811 / 1125899906842624) = 2"
    by (rule ilog2_eq) simp_all
  then show ?thesis
    by (simp add: plus_number_def nadd_def round_ne_def round_half_even_def Let_def
          floor_rat_numeral)
qed

lemma dv_38: "Fin (- (6178938688752319 / 18014398509481984)) * Fin 1 = Fin (- (6178938688752319 / 18014398509481984))"
proof -
  have "ilog2 (6178938688752319 / 18014398509481984) = - 2"
    by (rule ilog2_eq) simp_all
  then show ?thesis
    by (simp add: times_number_def nmul_def round_ne_def round_half_even_def Let_def
          floor_rat_numeral)
qed

lemma dv_39: "Fin (2813623867199717 / 1125899906842624) * Fin 1 = Fin (2813623867199717 / 1125899906842624)"
proof -
  have "ilog2 (2813623867199717 / 1125899906842624) = 1"
    by (rule ilog2_eq) simp_all
  then show ?thesis
    by (simp add: times_number_def nmul_def round_ne_def round_half_even_def Let_def
          floor_rat_numeral)
qed

lemma dv_40: "Fin (- (6178938688752319 / 18014398509481984)) + Fin (2813623867199717 / 1125899906842624) = Fin (2427440199152697 / 1125899906842624)"
proof -
  have "ilog2 (38839043186443153 / 18014398509481984) = 1"
    by (rule ilog2_eq) simp_all
  then show ?thesis
    by (simp add: plus_number_def nadd_def round_ne_def round_half_even_def Let_def
          floor_rat_numeral)
qed

lemma dv_41: "Fin (- (1708271633656971 / 281474976710656)) * Fin 1 = Fin (- (1708271633656971 / 281474976710656))"
proof -
  have "ilog2 (1708271633656971 / 281474976710656) = 2"
    by (rule ilog2_eq) simp_all
  then show ?thesis
    by (simp add: times_number_def nmul_def round_ne_def round_half_even_def Let_def
          floor_rat_numeral)
qed

lemma dv_42: "Fin (2427440199152697 / 1125899906842624) + Fin (- (1708271633656971 / 281474976710656)) = Fin (- (4405646335475187 / 1125899906842624))"
proof -
  have "ilog2 (4405646335475187 / 1125899906842624) = 1"
    by (rule ilog2_eq) simp_all
  then show ?thesis
    by (simp add: plus_number_def nadd_def round_ne_def round_half_even_def Let_def
          floor_rat_numeral)
qed

lemma dv_43: "Fin (5531546242317811 / 1125899906842624) * Fin 1 = Fin (5531546242317811 / 1125899906842624)"
proof -
  have "ilog2 (5531546242317811 / 1125899906842624) = 2"
    by (rule ilog2_eq) simp_all
  then show ?thesis
    by (simp add: times_number_def nmul_def round_ne_def round_half_even_def Let_def
          floor_rat_numeral)
qed

lemma dv_44: "Fin (- (4405646335475187 / 1125899906842624)) + Fin (5531546242317811 / 1125899906842624) = Fin 1"
proof -
  have "ilog2 (1) = 0"
    by (rule ilog2_eq) simp_all
  then show ?thesis
    by (simp add: plus_number_def nadd_def round_ne_def round_half_even_def Let_def
          floor_rat_numeral)
qed

lemma dv_45: "Fin (- (6178938688752319 / 18014398509481984)) * Fin (4504141983673739 / 4503599627370496) = Fin (- (386230175100023 / 1125899906842624))"
proof -
  have "ilog2 (27830817162555281869729875650741 / 81129638414606681695789005144064) = - 2"
    by (rule ilog2_eq) simp_all
  then show ?thesis
    by (simp add: times_number_def nmul_def round_ne_def round_half_even_def Let_def
          floor_rat_numeral)
qed

lemma dv_46: "Fin (2813623867199717 / 1125899906842624) * Fin (4506040230735089 / 4503599627370496) = Fin (5630297268303493 / 2251799813685248)"
proof -
  have "ilog2 (12678302339758366201530882769813 / 5070602400912917605986812821504) = 1"
    by (rule ilog2_eq) simp_all
  then show ?thesis
    by (simp add: times_number_def nmul_def round_ne_def round_half_even_def Let_def
          floor_rat_numeral)
qed

lemma dv_47: "Fin (- (386230175100023 / 1125899906842624)) + Fin (5630297268303493 / 2251799813685248) = Fin (4857836918103447 / 2251799813685248)"
proof -
  have "ilog2 (4857836918103447 / 2251799813685248) = 1"
    by (rule ilog2_eq) simp_all
  then show ?thesis
    by (simp add: plus_number_def nadd_def round_ne_def round_half_even_def Let_def
          floor_rat_numeral)
qed

lemma dv_48: "Fin (- (1708271633656971 / 281474976710656)) * Fin (4514582342511165 / 4503599627370496) = Fin (- (856218757396883 / 140737488355328))"
proof -
  have "ilog2 (7712132953520462831424347581215 / 1267650600228229401496703205376) = 2"
    by (rule ilog2_eq) simp_all
  then show ?thesis
    by (simp add: times_number_def nmul_def round_ne_def round_half_even_def Let_def
          floor_rat_numeral)
qed

lemma dv_49: "Fin (4857836918103447 / 2251799813685248) + Fin (- (856218757396883 / 140737488355328)) = Fin (- (8841663200246681 / 2251799813685248))"
proof -
  have "ilog2 (8841663200246681 / 2251799813685248) = 1"
    by (rule ilog2_eq) simp_all
  then show ?thesis
    by (simp add: plus_number_def nadd_def round_ne_def round_half_even_def Let_def
          floor_rat_numeral)
qed

lemma dv_50: "Fin (5531546242317811 / 1125899906842624) * Fin (2276510922751753 / 2251799813685248) = Fin (5592249081739681 / 1125899906842624)"
proof -
  have "ilog2 (12592625440342911818932883372683 / 2535301200456458802993406410752) = 2"
    by (rule ilog2_eq) simp_all
  then show ?thesis
    by (simp add: times_number_def nmul_def round_ne_def round_half_even_def Let_def
          floor_rat_numeral)
qed

lemma dv_51: "Fin (- (8841663200246681 / 2251799813685248)) + Fin (5592249081739681 / 1125899906842624) = Fin (2342834963232681 / 2251799813685248)"
proof -
  have "ilog2 (2342834963232681 / 2251799813685248) = 0"
    by (rule ilog2_eq) simp_all
  then show ?thesis
    by (simp add: plus_number_def nadd_def round_ne_def round_half_even_def Let_def
          floor_rat_numeral)
qed

lemma dv_52: "Fin 5 + Fin 1 = Fin 6"
proof -
  have "ilog2 (6) = 2"
    by (rule ilog2_eq) simp_all
  then show ?thesis
    by (simp add: plus_number_def nadd_def round_ne_def round_half_even_def Let_def
          floor_rat_numeral)
qed

lemma dv_53: "Fin 2 / Fin 6 = Fin (6004799503160661 / 18014398509481984)"
proof -
  have "ilog2 (1 / 3) = - 2"
    by (rule ilog2_eq) simp_all
  then show ?thesis
    by (simp add: divide_number_def ndiv_def round_ne_def round_half_even_def Let_def
          floor_rat_numeral)
qed

lemma dv_54: "Fin 1 * Fin (6004799503160661 / 18014398509481984) = Fin (6004799503160661 / 18014398509481984)"
proof -
  have "ilog2 (6004799503160661 / 18014398509481984) = - 2"
    by (rule ilog2_eq) simp_all
  then show ?thesis
    by (simp add: times_number_def nmul_def round_ne_def round_half_even_def Let_def
          floor_rat_numeral)
qed

lemma dv_55: "Fin 1 - Fin (6004799503160661 / 18014398509481984) = Fin (3002399751580331 / 4503599627370496)"
proof -
  have "ilog2 (12009599006321323 / 18014398509481984) = - 1"
    by (rule ilog2_eq) simp_all
  then show ?thesis
    by (simp add: minus_number_def nadd_def nneg_def round_ne_def round_half_even_def Let_def
          floor_rat_numeral)
qed

lemma dv_56: "Fin 1 * Fin (3002399751580331 / 4503599627370496) = Fin (3002399751580331 / 4503599627370496)"
proof -
  have "ilog2 (3002399751580331 / 4503599627370496) = - 1"
    by (rule ilog2_eq) simp_all
  then show ?thesis
    by (simp add: times_number_def nmul_def round_ne_def round_half_even_def Let_def
          floor_rat_numeral)
qed

lemma dv_57: "Fin (6004799503160661 / 18014398509481984) + Fin (3002399751580331 / 4503599627370496) = Fin 1"
proof -
  have "ilog2 (18014398509481985 / 18014398509481984) = 0"
    by (rule ilog2_eq) simp_all
  then show ?thesis
    by (simp add: plus_number_def nadd_def round_ne_def round_half_even_def Let_def
          floor_rat_numeral)
qed

lemma dv_58: "Fin 2 * Fin (6004799503160661 / 18014398509481984) = Fin (6004799503160661 / 9007199254740992)"
proof -
  have "ilog2 (6004799503160661 / 9007199254740992) = - 1"
    by (rule ilog2_eq) simp_all
  then show ?thesis
    by (simp add: times_number_def nmul_def round_ne_def round_half_even_def Let_def
          floor_rat_numeral)
qed

lemma dv_59: "Fin (6004799503160661 / 9007199254740992) + Fin (3002399751580331 / 4503599627370496) = Fin (3002399751580331 / 2251799813685248)"
proof -
  have "ilog2 (12009599006321323 / 9007199254740992) = 0"
    by (rule ilog2_eq) simp_all
  then show ?thesis
    by (simp add: plus_number_def nadd_def round_ne_def round_half_even_def Let_def
          floor_rat_numeral)
qed

lemma dv_60: "Fin (3002399751580331 / 2251799813685248) * Fin (6004799503160661 / 18014398509481984) = Fin (8006399337547549 / 18014398509481984)"
proof -
  have "ilog2 (18028808536579263599864140558791 / 40564819207303340847894502572032) = - 2"
    by (rule ilog2_eq) simp_all
  then show ?thesis
    by (simp add: times_number_def nmul_def round_ne_def round_half_even_def Let_def
          floor_rat_numeral)
qed

lemma dv_61: "Fin (8006399337547549 / 18014398509481984) + Fin (3002399751580331 / 4503599627370496) = Fin (2501999792983609 / 2251799813685248)"
proof -
  have "ilog2 (20015998343868873 / 18014398509481984) = 0"
    by (rule ilog2_eq) simp_all
  then show ?thesis
    by (simp add: plus_number_def nadd_def round_ne_def round_half_even_def Let_def
          floor_rat_numeral)
qed

lemma dv_62: "Fin (2501999792983609 / 2251799813685248) * Fin (6004799503160661 / 18014398509481984) = Fin (3335999723978145 / 9007199254740992)"
proof -
  have "ilog2 (15024007113816051999086866605549 / 40564819207303340847894502572032) = - 2"
    by (rule ilog2_eq) simp_all
  then show ?thesis
    by (simp add: times_number_def nmul_def round_ne_def round_half_even_def Let_def
          floor_rat_numeral)
qed

lemma dv_63: "Fin (3335999723978145 / 9007199254740992) + Fin (3002399751580331 / 4503599627370496) = Fin (1167599903392351 / 1125899906842624)"
proof -
  have "ilog2 (9340799227138807 / 9007199254740992) = 0"
    by (rule ilog2_eq) simp_all
  then show ?thesis
    by (simp add: plus_number_def nadd_def round_ne_def round_half_even_def Let_def
          floor_rat_numeral)
qed

lemma dv_64: "Fin (1167599903392351 / 1125899906842624) * Fin (6004799503160661 / 18014398509481984) = Fin (6227199484759205 / 18014398509481984)"
proof -
  have "ilog2 (7011203319780825066880471504011 / 20282409603651670423947251286016) = - 2"
    by (rule ilog2_eq) simp_all
  then show ?thesis
    by (simp add: times_number_def nmul_def round_ne_def round_half_even_def Let_def
          floor_rat_numeral)
qed

lemma dv_65: "Fin (6227199484759205 / 18014398509481984) + Fin (3002399751580331 / 4503599627370496) = Fin (1139799905692533 / 1125899906842624)"
proof -
  have "ilog2 (18236798491080529 / 18014398509481984) = 0"
    by (rule ilog2_eq) simp_all
  then show ?thesis
    by (simp add: plus_number_def nadd_def round_ne_def round_half_even_def Let_def
          floor_rat_numeral)
qed

lemma dv_66: "Fin (1139799905692533 / 1125899906842624) * Fin (6004799503160661 / 18014398509481984) = Fin (379933301897511 / 1125899906842624)"
proof -
  have "ilog2 (6844269907405090421859567044313 / 20282409603651670423947251286016) = - 2"
    by (rule ilog2_eq) simp_all
  then show ?thesis
    by (simp add: times_number_def nmul_def round_ne_def round_half_even_def Let_def
          floor_rat_numeral)
qed

lemma dv_67: "Fin (379933301897511 / 1125899906842624) + Fin (3002399751580331 / 4503599627370496) = Fin (4522132959170375 / 4503599627370496)"
proof -
  have "ilog2 (4522132959170375 / 4503599627370496) = 0"
    by (rule ilog2_eq) simp_all
  then show ?thesis
    by (simp add: plus_number_def nadd_def round_ne_def round_half_even_def Let_def
          floor_rat_numeral)
qed

lemma dv_68: "Fin (4522132959170375 / 4503599627370496) * Fin (6004799503160661 / 18014398509481984) = Fin (3014755306113583 / 9007199254740992)"
proof -
  have "ilog2 (27154501746452717495676896617875 / 81129638414606681695789005144064) = - 2"
    by (rule ilog2_eq) simp_all
  then show ?thesis
    by (simp add: times_number_def nmul_def round_ne_def round_half_even_def Let_def
          floor_rat_numeral)
qed

lemma dv_69: "Fin (3014755306113583 / 9007199254740992) + Fin (3002399751580331 / 4503599627370496) = Fin (2254888702318561 / 2251799813685248)"
proof -
  have "ilog2 (9019554809274245 / 9007199254740992) = 0"
    by (rule ilog2_eq) simp_all
  then show ?thesis
    by (simp add: plus_number_def nadd_def round_ne_def round_half_even_def Let_def
          floor_rat_numeral)
qed

lemma dv_70: "Fin (5566449139429933 / 9007199254740992) * Fin (5566449139429933 / 9007199254740992) = Fin (6880131136335397 / 18014398509481984)"
proof -
  have "ilog2 (30985356021860241676540216384489 / 81129638414606681695789005144064) = - 2"
    by (rule ilog2_eq) simp_all
  then show ?thesis
    by (simp add: times_number_def nmul_def round_ne_def round_half_even_def Let_def
          floor_rat_numeral)
qed

lemma dv_71: "Fin (6880131136335397 / 18014398509481984) * Fin (5566449139429933 / 9007199254740992) = Fin (8503842084510551 / 36028797018963968)"
proof -
  have "ilog2 (38297900043019257665711269238401 / 162259276829213363391578010288128) = - 3"
    by (rule ilog2_eq) simp_all
  then show ?thesis
    by (simp add: times_number_def nmul_def round_ne_def round_half_even_def Let_def
          floor_rat_numeral)
qed

lemma dv_72: "Fin 3 * Fin (6880131136335397 / 18014398509481984) = Fin (1290024588062887 / 1125899906842624)"
proof -
  have "ilog2 (20640393409006191 / 18014398509481984) = 0"
    by (rule ilog2_eq) simp_all
  then show ?thesis
    by (simp add: times_number_def nmul_def round_ne_def round_half_even_def Let_def
          floor_rat_numeral)
qed

lemma dv_73: "Fin 3 * Fin (8503842084510551 / 36028797018963968) = Fin (6377881563382913 / 9007199254740992)"
proof -
  have "ilog2 (25511526253531653 / 36028797018963968) = - 1"
    by (rule ilog2_eq) simp_all
  then show ?thesis
    by (simp add: times_number_def nmul_def round_ne_def round_half_even_def Let_def
          floor_rat_numeral)
qed

lemma dv_74: "Fin (1290024588062887 / 1125899906842624) + Fin (6377881563382913 / 9007199254740992) = Fin (2087259783485751 / 1125899906842624)"
proof -
  have "ilog2 (16698078267886009 / 9007199254740992) = 0"
    by (rule ilog2_eq) simp_all
  then show ?thesis
    by (simp add: plus_number_def nadd_def round_ne_def round_half_even_def Let_def
          floor_rat_numeral)
qed

lemma dv_75: "Fin (- 6) * Fin (6880131136335397 / 18014398509481984) = Fin (- (1290024588062887 / 562949953421312))"
proof -
  have "ilog2 (20640393409006191 / 9007199254740992) = 1"
    by (rule ilog2_eq) simp_all
  then show ?thesis
    by (simp add: times_number_def nmul_def round_ne_def round_half_even_def Let_def
          floor_rat_numeral)
qed

lemma dv_76: "Fin 3 * Fin (5566449139429933 / 9007199254740992) = Fin (2087418427286225 / 1125899906842624)"
proof -
  have "ilog2 (16699347418289799 / 9007199254740992) = 0"
    by (rule ilog2_eq) simp_all
  then show ?thesis
    by (simp add: times_number_def nmul_def round_ne_def round_half_even_def Let_def
          floor_rat_numeral)
qed

lemma dv_77: "Fin (- (1290024588062887 / 562949953421312)) - Fin (2087418427286225 / 1125899906842624) = Fin (- (4667467603411999 / 1125899906842624))"
proof -
  have "ilog2 (4667467603411999 / 1125899906842624) = 2"
    by (rule ilog2_eq) simp_all
  then show ?thesis
    by (simp add: minus_number_def nadd_def nneg_def round_ne_def round_half_even_def Let_def
          floor_rat_numeral)
qed

lemma dv_78: "Fin (- (4667467603411999 / 1125899906842624)) - Fin (6377881563382913 / 9007199254740992) = Fin (- (5464702798834863 / 1125899906842624))"
proof -
  have "ilog2 (43717622390678905 / 9007199254740992) = 2"
    by (rule ilog2_eq) simp_all
  then show ?thesis
    by (simp add: minus_number_def nadd_def nneg_def round_ne_def round_half_even_def Let_def
          floor_rat_numeral)
qed

lemma dv_79: "Fin 1 + Fin (2087418427286225 / 1125899906842624) = Fin (3213318334128849 / 1125899906842624)"
proof -
  have "ilog2 (3213318334128849 / 1125899906842624) = 1"
    by (rule ilog2_eq) simp_all
  then show ?thesis
    by (simp add: plus_number_def nadd_def round_ne_def round_half_even_def Let_def
          floor_rat_numeral)
qed

lemma dv_80: "Fin (3213318334128849 / 1125899906842624) + Fin (8503842084510551 / 36028797018963968) = Fin (6958126798539607 / 2251799813685248)"
proof -
  have "ilog2 (111330028776633719 / 36028797018963968) = 1"
    by (rule ilog2_eq) simp_all
  then show ?thesis
    by (simp add: plus_number_def nadd_def round_ne_def round_half_even_def Let_def
          floor_rat_numeral)
qed

lemma dv_81: "Fin (6958126798539607 / 2251799813685248) + Fin (1290024588062887 / 1125899906842624) = Fin (2384543993666345 / 562949953421312)"
proof -
  have "ilog2 (9538175974665381 / 2251799813685248) = 2"
    by (rule ilog2_eq) simp_all
  then show ?thesis
    by (simp add: plus_number_def nadd_def round_ne_def round_half_even_def Let_def
          floor_rat_numeral)
qed

lemma dv_82: "Fin (- (8503842084510551 / 36028797018963968)) * Fin 1 = Fin (- (8503842084510551 / 36028797018963968))"
proof -
  have "ilog2 (8503842084510551 / 36028797018963968) = - 3"
    by (rule ilog2_eq) simp_all
  then show ?thesis
    by (simp add: times_number_def nmul_def round_ne_def round_half_even_def Let_def
          floor_rat_numeral)
qed

lemma dv_83: "Fin (2087259783485751 / 1125899906842624) * Fin 1 = Fin (2087259783485751 / 1125899906842624)"
proof -
  have "ilog2 (2087259783485751 / 1125899906842624) = 0"
    by (rule ilog2_eq) simp_all
  then show ?thesis
    by (simp add: times_number_def nmul_def round_ne_def round_half_even_def Let_def
          floor_rat_numeral)
qed

lemma dv_84: "Fin (- (8503842084510551 / 36028797018963968)) + Fin (2087259783485751 / 1125899906842624) = Fin (7286058873379185 / 4503599627370496)"
proof -
  have "ilog2 (58288470987033481 / 36028797018963968) = 0"
    by (rule ilog2_eq) simp_all
  then show ?thesis
    by (simp add: plus_number_def nadd_def round_ne_def round_half_even_def Let_def
          floor_rat_numeral)
qed

lemma dv_85: "Fin (- (5464702798834863 / 1125899906842624)) * Fin 1 = Fin (- (5464702798834863 / 1125899906842624))"
proof -
  have "ilog2 (5464702798834863 / 1125899906842624) = 2"
    by (rule ilog2_eq) simp_all
  then show ?thesis
    by (simp add: times_number_def nmul_def round_ne_def round_half_even_def Let_def
          floor_rat_numeral)
qed

lemma dv_86: "Fin (7286058873379185 / 4503599627370496) + Fin (- (5464702798834863 / 1125899906842624)) = Fin (- (3643188080490067 / 1125899906842624))"
proof -
  have "ilog2 (14572752321960267 / 4503599627370496) = 1"
    by (rule ilog2_eq) simp_all
  then show ?thesis
    by (simp add: plus_number_def nadd_def round_ne_def round_half_even_def Let_def
          floor_rat_numeral)
qed

lemma dv_87: "Fin (2384543993666345 / 562949953421312) * Fin 1 = Fin (2384543993666345 / 562949953421312)"
proof -
  have "ilog2 (2384543993666345 / 562949953421312) = 2"
    by (rule ilog2_eq) simp_all
  then show ?thesis
    by (simp add: times_number_def nmul_def round_ne_def round_half_even_def Let_def
          floor_rat_numeral)
qed

lemma dv_88: "Fin (- (3643188080490067 / 1125899906842624)) + Fin (2384543993666345 / 562949953421312) = Fin (1125899906842623 / 1125899906842624)"
proof -
  have "ilog2 (1125899906842623 / 1125899906842624) = - 1"
    by (rule ilog2_eq) simp_all
  then show ?thesis
    by (simp add: plus_number_def nadd_def round_ne_def round_half_even_def Let_def
          floor_rat_numeral)
qed

lemma dv_89: "Fin (- (8503842084510551 / 36028797018963968)) * Fin (2254888702318561 / 2251799813685248) = Fin (- (4257753581407889 / 18014398509481984))"
proof -
  have "ilog2 (19175217442663963087978567637111 / 81129638414606681695789005144064) = - 3"
    by (rule ilog2_eq) simp_all
  then show ?thesis
    by (simp add: times_number_def nmul_def round_ne_def round_half_even_def Let_def
          floor_rat_numeral)
qed

lemma dv_90: "Fin (2087259783485751 / 1125899906842624) * Fin (4522132959170375 / 4503599627370496) = Fin (2095849329919849 / 1125899906842624)"
proof -
  have "ilog2 (9438866261251735389578593826625 / 5070602400912917605986812821504) = 0"
    by (rule ilog2_eq) simp_all
  then show ?thesis
    by (simp add: times_number_def nmul_def round_ne_def round_half_even_def Let_def
          floor_rat_numeral)
qed

lemma dv_91: "Fin (- (4257753581407889 / 18014398509481984)) + Fin (2095849329919849 / 1125899906842624) = Fin (14294841649077 / 8796093022208)"
proof -
  have "ilog2 (29275835697309695 / 18014398509481984) = 0"
    by (rule ilog2_eq) simp_all
  then show ?thesis
    by (simp add: plus_number_def nadd_def round_ne_def round_half_even_def Let_def
          floor_rat_numeral)
qed

lemma dv_92: "Fin (- (5464702798834863 / 1125899906842624)) * Fin (1139799905692533 / 1125899906842624) = Fin (- (2766084132743573 / 562949953421312))"
proof -
  have "ilog2 (6228667734749697981473519177979 / 1267650600228229401496703205376) = 2"
    by (rule ilog2_eq) simp_all
  then show ?thesis
    by (simp add: times_number_def nmul_def round_ne_def round_half_even_def Let_def
          floor_rat_numeral)
qed

lemma dv_93: "Fin (14294841649077 / 8796093022208) + Fin (- (2766084132743573 / 562949953421312)) = Fin (- (1851214267202645 / 562949953421312))"
proof -
  have "ilog2 (1851214267202645 / 562949953421312) = 1"
    by (rule ilog2_eq) simp_all
  then show ?thesis
    by (simp add: plus_number_def nadd_def round_ne_def round_half_even_def Let_def
          floor_rat_numeral)
qed

lemma dv_94: "Fin (2384543993666345 / 562949953421312) * Fin (1167599903392351 / 1125899906842624) = Fin (1236430218938105 / 281474976710656)"
proof -
  have "ilog2 (2784193336639635256823519127095 / 633825300114114700748351602688) = 2"
    by (rule ilog2_eq) simp_all
  then show ?thesis
    by (simp add: times_number_def nmul_def round_ne_def round_half_even_def Let_def
          floor_rat_numeral)
qed

lemma dv_95: "Fin (- (1851214267202645 / 562949953421312)) + Fin (1236430218938105 / 281474976710656) = Fin (621646170673565 / 562949953421312)"
proof -
  have "ilog2 (621646170673565 / 562949953421312) = 0"
    by (rule ilog2_eq) simp_all
  then show ?thesis
    by (simp add: plus_number_def nadd_def round_ne_def round_half_even_def Let_def
          floor_rat_numeral)
qed

lemmas dv_all = dv_1 dv_2 dv_3 dv_4 dv_5 dv_6 dv_7 dv_8 dv_9 dv_10 dv_11 dv_12 dv_13 dv_14 dv_15 dv_16 dv_17 dv_18 dv_19 dv_20 dv_21 dv_22 dv_23 dv_24 dv_25 dv_26 dv_27 dv_28 dv_29 dv_30 dv_31 dv_32 dv_33 dv_34 dv_35 dv_36 dv_37 dv_38 dv_39 dv_40 dv_41 dv_42 dv_43 dv_44 dv_45 dv_46 dv_47 dv_48 dv_49 dv_50 dv_51 dv_52 dv_53 dv_54 dv_55 dv_56 dv_57 dv_58 dv_59 dv_60 dv_61 dv_62 dv_63 dv_64 dv_65 dv_66 dv_67 dv_68 dv_69 dv_70 dv_71 dv_72 dv_73 dv_74 dv_75 dv_76 dv_77 dv_78 dv_79 dv_80 dv_81 dv_82 dv_83 dv_84 dv_85 dv_86 dv_87 dv_88 dv_89 dv_90 dv_91 dv_92 dv_93 dv_94 dv_95

subsection \<open>One pass and six passes\<close>

text \<open>
  A pass of \<open>ema\<close> over elements that are all within \<open>D\<close> of \<open>v\<close> gives elements
  within \<open>D + 10 / 2 ^ 53\<close>; six passes over exact elements give elements within
  \<open>60 / 2 ^ 53\<close>.
\<close>

lemma close_to_mono: "D \<le> E \<Longrightarrow> close_to D v a \<Longrightarrow> close_to E v a"
proof -
  assume le: "D \<le> E" and "close_to D v a"
  then obtain r where r: "a = Fin r" "\<bar>r - v\<bar> \<le> D * \<bar>v\<bar>"
    unfolding close_to_def by blast
  from le have "D * \<bar>v\<bar> \<le> E * \<bar>v\<bar>"
    by (rule mult_right_mono) simp
  with r show ?thesis
    unfolding close_to_def by auto
qed

lemma ema_loop_close:
  assumes step: "\<And>x prev. close_to D v x \<Longrightarrow> close_to E v prev \<Longrightarrow>
                   close_to E v (x * m + prev * (1 - m))"
  shows "\<forall>x \<in> set xs. close_to D v x \<Longrightarrow> close_to E v prev \<Longrightarrow>
         \<forall>y \<in> set (ema_loop m prev xs). close_to E v y"
proof (induction xs arbitrary: prev)
  case Nil
  show ?case by simp
next
  case (Cons x xs)
  from Cons.prems have x: "close_to D v x" and rest: "\<forall>z \<in> set xs. close_to D v z"
    and p: "close_to E v prev"
    by simp_all
  from step [OF x p] have c: "close_to E v (x * m + prev * (1 - m))" .
  from Cons.IH [OF rest c] c show ?case
    by (simp add: Let_def)
qed

lemma ema_close:
  assumes step: "\<And>x prev. close_to D v x \<Longrightarrow> close_to E v prev \<Longrightarrow>
                   close_to E v (x * ((1 + 1) / (len + 1)) + prev * (1 - (1 + 1) / (len + 1)))"
    and le: "D \<le> E"
    and xs: "\<forall>x \<in> set xs. close_to D v x"
  shows "\<forall>y \<in> set (ema xs len). close_to E v y"
proof (cases xs)
  case Nil
  then show ?thesis by (simp add: ema_def)
next
  case (Cons x xs')
  with xs have x: "close_to E v x" and rest: "\<forall>z \<in> set xs'. close_to D v z"
    by (auto intro: close_to_mono [OF le])
  from ema_loop_close [OF step rest x] x show ?thesis
    by (simp add: ema_def Cons Let_def)
qed

lemma pass_close_w1:
  assumes v: "1 / 2 ^ 1000 \<le> \<bar>v\<bar>" "\<bar>v\<bar> \<le> 2 ^ 1000"
    and D: "0 \<le> D" "D \<le> 50 / 2 ^ 53"
    and xs: "\<forall>x \<in> set xs. close_to D v x"
  shows "\<forall>y \<in> set (ema xs length1). close_to (D + 10 / 2 ^ 53) v y"
proof (rule ema_close [OF _ _ xs])
  show "D \<le> D + 10 / 2 ^ 53" by simp
next
  fix x prev
  assume "close_to D v x" "close_to (D + 10 / 2 ^ 53) v prev"
  from step_close_w1 [OF v D this]
  show "close_to (D + 10 / 2 ^ 53) v
          (x * ((1 + 1) / (length1 + 1)) + prev * (1 - (1 + 1) / (length1 + 1)))"
    by (simp add: length1_def one_number_def dv_all)
qed

lemma pass_close_w2:
  assumes v: "1 / 2 ^ 1000 \<le> \<bar>v\<bar>" "\<bar>v\<bar> \<le> 2 ^ 1000"
    and D: "0 \<le> D" "D \<le> 50 / 2 ^ 53"
    and xs: "\<forall>x \<in> set xs. close_to D v x"
  shows "\<forall>y \<in> set (ema xs length2). close_to (D + 10 / 2 ^ 53) v y"
proof (rule ema_close [OF _ _ xs])
  show "D \<le> D + 10 / 2 ^ 53" by simp
next
  fix x prev
  assume "close_to D v x" "close_to (D + 10 / 2 ^ 53) v prev"
  from step_close_w2 [OF v D this]
  show "close_to (D + 10 / 2 ^ 53) v
          (x * ((1 + 1) / (length2 + 1)) + prev * (1 - (1 + 1) / (length2 + 1)))"
    by (simp add: length2_def one_number_def dv_all)
qed

lemma passes_close:
  assumes v: "1 / 2 ^ 1000 \<le> \<bar>v\<bar>" "\<bar>v\<bar> \<le> 2 ^ 1000"
    and len: "len = length1 \<or> len = length2"
    and xs: "\<forall>x \<in> set xs. close_to 0 v x"
  shows "k \<le> 6 \<Longrightarrow> \<forall>y \<in> set (ema_passes k xs len). close_to (of_nat k * (10 / 2 ^ 53)) v y"
proof (induction k)
  case 0
  with xs show ?case by simp
next
  case (Suc k)
  then have k: "k \<le> 5" by simp
  then have "rat_of_nat k \<le> 5"
    by (metis of_nat_le_iff of_nat_numeral)
  then have D: "0 \<le> rat_of_nat k * (10 / 2 ^ 53)" "rat_of_nat k * (10 / 2 ^ 53) \<le> 50 / 2 ^ 53"
    by simp_all
  from Suc have prev: "\<forall>y \<in> set (ema_passes k xs len). close_to (of_nat k * (10 / 2 ^ 53)) v y"
    by simp
  have eq: "rat_of_nat (Suc k) * (10 / 2 ^ 53) = rat_of_nat k * (10 / 2 ^ 53) + 10 / 2 ^ 53"
    by (simp add: algebra_simps)
  from len show ?case
  proof
    assume "len = length1"
    with pass_close_w1 [OF v D prev] show ?thesis
      by (simp only: ema_passes.simps eq)
  next
    assume "len = length2"
    with pass_close_w2 [OF v D prev] show ?thesis
      by (simp only: ema_passes.simps eq)
  qed
qed

text \<open>
  C6, as amended.  For the program's two window lengths, 8 and 5, and a constant series
  of any length whose value \<open>v\<close> has a magnitude between \<open>2 ^ - 1000\<close> and \<open>2 ^ 1000\<close>,
  six passes of \<open>ema\<close> in the program's arithmetic return a series of the same
  length whose first element is \<open>v\<close> and whose every element is a finite number within
  \<open>60 / 2 ^ 53\<close> of \<open>v\<close>, relative to \<open>v\<close>.
\<close>

theorem ema_constant_close:
  "1 / 2 ^ 1000 \<le> \<bar>v\<bar> \<Longrightarrow> \<bar>v\<bar> \<le> 2 ^ 1000 \<Longrightarrow> len = length1 \<or> len = length2 \<Longrightarrow>
   length (ema_passes 6 (replicate n (Fin v)) len) = n
   \<and> (\<forall>y \<in> set (ema_passes 6 (replicate n (Fin v)) len).
         \<exists>r. y = Fin r \<and> \<bar>r - v\<bar> \<le> 60 / 2 ^ 53 * \<bar>v\<bar>)
   \<and> (0 < n \<longrightarrow> hd (ema_passes 6 (replicate n (Fin v)) len) = Fin v)"
proof -
  assume v: "1 / 2 ^ 1000 \<le> \<bar>v\<bar>" "\<bar>v\<bar> \<le> 2 ^ 1000" and len: "len = length1 \<or> len = length2"
  have "\<forall>x \<in> set (replicate n (Fin v)). close_to 0 v x"
    by (simp add: close_to_def)
  from passes_close [OF v len this, of 6]
  have "\<forall>y \<in> set (ema_passes 6 (replicate n (Fin v)) len). close_to (60 / 2 ^ 53) v y"
    by simp
  then show ?thesis
    by (simp add: close_to_def length_ema_passes hd_ema_passes)
qed

theorem ema_constant_close_witness:
  "1 / 2 ^ 1000 \<le> \<bar>15::rat\<bar> \<and> \<bar>15::rat\<bar> \<le> 2 ^ 1000
   \<and> length (ema_passes 6 (replicate 2 (Fin 15)) length2) = 2
   \<and> (\<exists>r. ema_passes 6 (replicate 2 (Fin 15)) length2 ! 1 = Fin r
            \<and> \<bar>r - 15\<bar> \<le> 60 / 2 ^ 53 * \<bar>15\<bar>)
   \<and> hd (ema_passes 6 (replicate 2 (Fin 15)) length2) = Fin 15"
proof -
  let ?out = "ema_passes 6 (replicate 2 (Fin 15)) length2"
  have range: "1 / 2 ^ 1000 \<le> \<bar>15::rat\<bar>" "\<bar>15::rat\<bar> \<le> 2 ^ 1000"
    by simp_all
  from ema_constant_close [OF range, of length2 2]
  have len: "length ?out = 2"
    and close: "\<forall>y \<in> set ?out. \<exists>r. y = Fin r \<and> \<bar>r - 15\<bar> \<le> 60 / 2 ^ 53 * \<bar>15\<bar>"
    and hd: "hd ?out = Fin 15"
    by simp_all
  from len have "?out ! 1 \<in> set ?out"
    by (intro nth_mem) simp
  with close have "\<exists>r. ?out ! 1 = Fin r \<and> \<bar>r - 15\<bar> \<le> 60 / 2 ^ 53 * \<bar>15\<bar>"
    by (rule bspec)
  with range len hd show ?thesis
    by blast
qed

text \<open>
  The single steps of \<open>ema\<close> on the constant series 15, 15 with window length 5, in the
  program's arithmetic.
\<close>

lemma dbl_1: "(1::number) + (1::number) = Fin 2"
proof -
  have "ilog2 (2) = 1"
    by (rule ilog2_eq) simp_all
  then show ?thesis
    by (simp add: one_number_def plus_number_def nadd_def round_ne_def round_half_even_def
          Let_def floor_rat_numeral)
qed

lemma dbl_2: "Fin 5 + (1::number) = Fin 6"
proof -
  have "ilog2 (6) = 2"
    by (rule ilog2_eq) simp_all
  then show ?thesis
    by (simp add: one_number_def plus_number_def nadd_def round_ne_def round_half_even_def
          Let_def floor_rat_numeral)
qed

lemma dbl_3: "Fin 2 / Fin 6 = Fin (6004799503160661 / 18014398509481984)"
proof -
  have "ilog2 (1 / 3) = - 2"
    by (rule ilog2_eq) simp_all
  then show ?thesis
    by (simp add: one_number_def divide_number_def ndiv_def round_ne_def round_half_even_def
          Let_def floor_rat_numeral)
qed

lemma dbl_4: "(1::number) - Fin (6004799503160661 / 18014398509481984) = Fin (3002399751580331 / 4503599627370496)"
proof -
  have "ilog2 (12009599006321323 / 18014398509481984) = - 1"
    by (rule ilog2_eq) simp_all
  then show ?thesis
    by (simp add: one_number_def minus_number_def nadd_def nneg_def round_ne_def round_half_even_def
          Let_def floor_rat_numeral)
qed

lemma dbl_5: "Fin 15 * Fin (6004799503160661 / 18014398509481984) = Fin 5"
proof -
  have "ilog2 (90071992547409915 / 18014398509481984) = 2"
    by (rule ilog2_eq) simp_all
  then show ?thesis
    by (simp add: one_number_def times_number_def nmul_def round_ne_def round_half_even_def
          Let_def floor_rat_numeral)
qed

lemma dbl_6: "Fin 15 * Fin (3002399751580331 / 4503599627370496) = Fin (5629499534213121 / 562949953421312)"
proof -
  have "ilog2 (45035996273704965 / 4503599627370496) = 3"
    by (rule ilog2_eq) simp_all
  then show ?thesis
    by (simp add: one_number_def times_number_def nmul_def round_ne_def round_half_even_def
          Let_def floor_rat_numeral)
qed

lemma dbl_7: "Fin 5 + Fin (5629499534213121 / 562949953421312) = Fin (8444249301319681 / 562949953421312)"
proof -
  have "ilog2 (8444249301319681 / 562949953421312) = 3"
    by (rule ilog2_eq) simp_all
  then show ?thesis
    by (simp add: one_number_def plus_number_def nadd_def round_ne_def round_half_even_def
          Let_def floor_rat_numeral)
qed

lemma dbl_8: "Fin (8444249301319681 / 562949953421312) * Fin (6004799503160661 / 18014398509481984) = Fin 5"
proof -
  have "ilog2 (50706024009129179249917864269141 / 10141204801825835211973625643008) = 2"
    by (rule ilog2_eq) simp_all
  then show ?thesis
    by (simp add: one_number_def times_number_def nmul_def round_ne_def round_half_even_def
          Let_def floor_rat_numeral)
qed

lemma ema_15_first:
  "ema [Fin 15, Fin 15] (Fin 5) = [Fin 15, Fin (8444249301319681 / 562949953421312)]"
  by (simp add: ema_def Let_def dbl_1 dbl_2 dbl_3 dbl_4 dbl_5 dbl_6 dbl_7)

lemma ema_15_next:
  "ema [Fin 15, Fin (8444249301319681 / 562949953421312)] (Fin 5)
   = [Fin 15, Fin (8444249301319681 / 562949953421312)]"
  by (simp add: ema_def Let_def dbl_1 dbl_2 dbl_3 dbl_4 dbl_6 dbl_7 dbl_8)


text \<open>
  C6 as stated fails in the program's arithmetic: with the window length 5 of the fast
  indicator, six passes over 15, 15 end in 15 and 15.000000000000002.
\<close>

theorem ema_constant_counterexample:
  "ema_passes 6 (replicate 2 (Fin 15)) length2
     = [Fin 15, Fin (8444249301319681 / 562949953421312)]
   \<and> ema_passes 6 (replicate 2 (Fin 15)) length2 \<noteq> replicate 2 (Fin 15)"
proof -
  have "ema_passes 6 (replicate 2 (Fin 15)) length2
        = [Fin 15, Fin (8444249301319681 / 562949953421312)]"
    by (simp add: eval_nat_numeral length2_def ema_15_first ema_15_next)
  then show ?thesis
    by (simp add: eval_nat_numeral)
qed

section \<open>Two polls inside one two-hour bar\<close>

lemma ema_loop_prefix:
  "x * m + x * (1 - m) = x \<Longrightarrow>
   ema_loop m x (replicate n x @ ys) = replicate n x @ ema_loop m x ys"
  by (induction n) (simp_all add: Let_def)

lemma ema_tail:
  assumes "(1 + 1) / (len + 1) = M" "1 - M = W" "x * M + x * W = x" "0 < n"
  shows "ema (replicate n x @ [y]) len = replicate n x @ [y * M + x * W]"
proof -
  from \<open>0 < n\<close> obtain k where n: "n = Suc k"
    by (cases n) simp_all
  have "ema_loop M x (replicate k x @ [y]) = replicate k x @ ema_loop M x [y]"
    using assms(2,3) by (intro ema_loop_prefix) simp
  then show ?thesis
    using assms(1,2) by (simp add: ema_def n Let_def)
qed

lemma ema_flat:
  assumes "(1 + 1) / (len + 1) = M" "1 - M = W" "x * M + x * W = x"
  shows "ema (replicate n x) len = replicate n x"
proof (cases n)
  case 0
  then show ?thesis by (simp add: ema_def)
next
  case (Suc k)
  have "ema_loop M x (replicate k x @ []) = replicate k x @ ema_loop M x []"
    using assms(2,3) by (intro ema_loop_prefix) simp
  then show ?thesis
    using assms(1) by (simp add: ema_def Suc Let_def)
qed

lemma src_same:
  "map (\<lambda>i. (idx xs i + idx xs i + Fin 2 * idx xs i) / Fin 4) [0..<length xs]
   = map (\<lambda>x. (x + x + Fin 2 * x) / Fin 4) xs"
  by (rule nth_equalityI) (simp_all add: idx_def)

lemma at_last_colors:
  assumes len: "2 \<le> length s"
  shows "at_last (colors s) =
     Some (if s ! (length s - 1) > s ! (length s - 2) then green else red)"
proof -
  from len have ne: "colors s \<noteq> []"
    by (auto simp: colors_def)
  from len have i: "length s - 1 < length s" "length s - 1 \<noteq> 0"
    and j: "length s - 1 - 1 = length s - 2"
    by simp_all
  have "last (colors s) = colors s ! (length s - 1)"
    using ne by (simp add: last_conv_nth length_colors)
  also have "\<dots> = (if s ! (length s - 1) > s ! (length s - 1 - 1) then green else red)"
    using colors_nth [OF i(1)] i(2) by simp
  finally have "last (colors s)
                = (if s ! (length s - 1) > s ! (length s - 2) then green else red)"
    by (simp only: j)
  with ne show ?thesis
    by (simp only: at_last_def if_False)
qed


lemma ema_passes_unfold:
  "ema_passes 3 s l = ema (ema (ema s l) l) l"
  "ema_passes 4 s l = ema (ema (ema (ema s l) l) l) l"
  "ema_passes 5 s l = ema (ema (ema (ema (ema s l) l) l) l) l"
  "ema_passes 6 s l = ema (ema (ema (ema (ema (ema s l) l) l) l) l) l"
  by (simp_all add: eval_nat_numeral)

lemma prices_rising:
  "map high (map (to_candle example_lib) (rising_rows t)) = replicate 19 (Fin 1) @ [Fin 2]"
  "map low (map (to_candle example_lib) (rising_rows t)) = replicate 19 (Fin 1) @ [Fin 2]"
  "map close (map (to_candle example_lib) (rising_rows t)) = replicate 19 (Fin 1) @ [Fin 2]"
  by (simp_all add: rising_rows_def example_row_def to_candle_def example_lib_def o_def
        map_replicate_const)

lemma prices_flat:
  "map high (map (to_candle example_lib) (example_rows t)) = replicate 20 (Fin 1)"
  "map low (map (to_candle example_lib) (example_rows t)) = replicate 20 (Fin 1)"
  "map close (map (to_candle example_lib) (example_rows t)) = replicate 20 (Fin 1)"
  by (simp_all add: example_rows_def example_row_def to_candle_def example_lib_def o_def
        map_replicate_const)

lemma src_rising:
  "map (\<lambda>i. (idx (replicate 19 (Fin 1) @ [Fin 2]) i + idx (replicate 19 (Fin 1) @ [Fin 2]) i + Fin 2 * idx (replicate 19 (Fin 1) @ [Fin 2]) i) / Fin 4)
     [0..<length (replicate 19 (Fin 1) @ [Fin 2])]
   = replicate 19 (Fin 1) @ [Fin 2]"
  by (simp only: src_same) (simp add: dv_all)

lemma src_flat:
  "map (\<lambda>i. (idx (replicate 20 (Fin 1)) i + idx (replicate 20 (Fin 1)) i
                + Fin 2 * idx (replicate 20 (Fin 1)) i) / Fin 4)
     [0..<length (replicate 20 (Fin 1))]
   = replicate 20 (Fin 1)"
  by (simp only: src_same) (simp add: dv_all)

lemma tail_w1:
  "ema (replicate 19 (Fin 1) @ [y]) length1
   = replicate 19 (Fin 1) @ [y * Fin (2001599834386887 / 9007199254740992) + Fin 1 * Fin (7005599420354105 / 9007199254740992)]"
  by (rule ema_tail) (simp_all add: length1_def one_number_def dv_all)

lemma flat_w1: "ema (replicate n (Fin 1)) length1 = replicate n (Fin 1)"
  by (rule ema_flat [where M = "Fin (2001599834386887 / 9007199254740992)" and W = "Fin (7005599420354105 / 9007199254740992)"])
     (simp_all add: length1_def one_number_def dv_all)

lemma passes_rising_w1:
  "ema_passes 3 (replicate 19 (Fin 1) @ [Fin 2]) length1 = replicate 19 (Fin 1) @ [Fin (2276510922751753 / 2251799813685248)]"
  "ema_passes 4 (replicate 19 (Fin 1) @ [Fin 2]) length1 = replicate 19 (Fin 1) @ [Fin (4514582342511165 / 4503599627370496)]"
  "ema_passes 5 (replicate 19 (Fin 1) @ [Fin 2]) length1 = replicate 19 (Fin 1) @ [Fin (4506040230735089 / 4503599627370496)]"
  "ema_passes 6 (replicate 19 (Fin 1) @ [Fin 2]) length1 = replicate 19 (Fin 1) @ [Fin (4504141983673739 / 4503599627370496)]"
  by (simp_all add: ema_passes_unfold tail_w1 dv_all)

lemma t3_rising_w1:
  "tillsonT3Series (pow example_lib) (replicate 19 (Fin 1) @ [Fin 2])
     (replicate 19 (Fin 1) @ [Fin 2]) (replicate 19 (Fin 1) @ [Fin 2]) length1 a1
   = map (\<lambda>i. Fin (- (6178938688752319 / 18014398509481984)) * idx (replicate 19 (Fin 1) @ [Fin (4504141983673739 / 4503599627370496)]) i
              + Fin (2813623867199717 / 1125899906842624) * idx (replicate 19 (Fin 1) @ [Fin (4506040230735089 / 4503599627370496)]) i
              + Fin (- (1708271633656971 / 281474976710656)) * idx (replicate 19 (Fin 1) @ [Fin (4514582342511165 / 4503599627370496)]) i
              + Fin (5531546242317811 / 1125899906842624) * idx (replicate 19 (Fin 1) @ [Fin (2276510922751753 / 2251799813685248)]) i) [0..<20]"
  by (simp only: tillsonT3Series_passes Let_def src_rising passes_rising_w1)
     (simp add: example_lib_def num_a1 uminus_number_def nneg_def dv_all)

lemma t3_rising_last_w1:
  "tillsonT3Series (pow example_lib) (replicate 19 (Fin 1) @ [Fin 2])
     (replicate 19 (Fin 1) @ [Fin 2]) (replicate 19 (Fin 1) @ [Fin 2]) length1 a1 ! 19 = Fin (2342834963232681 / 2251799813685248)"
  "tillsonT3Series (pow example_lib) (replicate 19 (Fin 1) @ [Fin 2])
     (replicate 19 (Fin 1) @ [Fin 2]) (replicate 19 (Fin 1) @ [Fin 2]) length1 a1 ! 18 = Fin 1"
  by (simp_all add: t3_rising_w1 idx_def nth_append dv_all)

lemma tail_w2:
  "ema (replicate 19 (Fin 1) @ [y]) length2
   = replicate 19 (Fin 1) @ [y * Fin (6004799503160661 / 18014398509481984) + Fin 1 * Fin (3002399751580331 / 4503599627370496)]"
  by (rule ema_tail) (simp_all add: length2_def one_number_def dv_all)

lemma flat_w2: "ema (replicate n (Fin 1)) length2 = replicate n (Fin 1)"
  by (rule ema_flat [where M = "Fin (6004799503160661 / 18014398509481984)" and W = "Fin (3002399751580331 / 4503599627370496)"])
     (simp_all add: length2_def one_number_def dv_all)

lemma passes_rising_w2:
  "ema_passes 3 (replicate 19 (Fin 1) @ [Fin 2]) length2 = replicate 19 (Fin 1) @ [Fin (1167599903392351 / 1125899906842624)]"
  "ema_passes 4 (replicate 19 (Fin 1) @ [Fin 2]) length2 = replicate 19 (Fin 1) @ [Fin (1139799905692533 / 1125899906842624)]"
  "ema_passes 5 (replicate 19 (Fin 1) @ [Fin 2]) length2 = replicate 19 (Fin 1) @ [Fin (4522132959170375 / 4503599627370496)]"
  "ema_passes 6 (replicate 19 (Fin 1) @ [Fin 2]) length2 = replicate 19 (Fin 1) @ [Fin (2254888702318561 / 2251799813685248)]"
  by (simp_all add: ema_passes_unfold tail_w2 dv_all)

lemma t3_rising_w2:
  "tillsonT3Series (pow example_lib) (replicate 19 (Fin 1) @ [Fin 2])
     (replicate 19 (Fin 1) @ [Fin 2]) (replicate 19 (Fin 1) @ [Fin 2]) length2 a2
   = map (\<lambda>i. Fin (- (8503842084510551 / 36028797018963968)) * idx (replicate 19 (Fin 1) @ [Fin (2254888702318561 / 2251799813685248)]) i
              + Fin (2087259783485751 / 1125899906842624) * idx (replicate 19 (Fin 1) @ [Fin (4522132959170375 / 4503599627370496)]) i
              + Fin (- (5464702798834863 / 1125899906842624)) * idx (replicate 19 (Fin 1) @ [Fin (1139799905692533 / 1125899906842624)]) i
              + Fin (2384543993666345 / 562949953421312) * idx (replicate 19 (Fin 1) @ [Fin (1167599903392351 / 1125899906842624)]) i) [0..<20]"
  by (simp only: tillsonT3Series_passes Let_def src_rising passes_rising_w2)
     (simp add: example_lib_def num_a2 uminus_number_def nneg_def dv_all)

lemma t3_rising_last_w2:
  "tillsonT3Series (pow example_lib) (replicate 19 (Fin 1) @ [Fin 2])
     (replicate 19 (Fin 1) @ [Fin 2]) (replicate 19 (Fin 1) @ [Fin 2]) length2 a2 ! 19 = Fin (621646170673565 / 562949953421312)"
  "tillsonT3Series (pow example_lib) (replicate 19 (Fin 1) @ [Fin 2])
     (replicate 19 (Fin 1) @ [Fin 2]) (replicate 19 (Fin 1) @ [Fin 2]) length2 a2 ! 18 = Fin (1125899906842623 / 1125899906842624)"
  by (simp_all add: t3_rising_w2 idx_def nth_append dv_all)



lemma length_tillsonT3Series: "length (tillsonT3Series pw hs ls cs len a) = length cs"
  by (simp add: tillsonT3Series_def Let_def length_ema)

lemma passes_flat:
  assumes "\<And>n. ema (replicate n (Fin 1)) len = replicate n (Fin 1)"
  shows "ema_passes k (replicate n (Fin 1)) len = replicate n (Fin 1)"
  by (induction k) (simp_all add: assms)

lemma t3_flat_tie:
  assumes "\<And>n. ema (replicate n (Fin 1)) len = replicate n (Fin 1)"
  shows "tillsonT3Series pw (replicate 20 (Fin 1)) (replicate 20 (Fin 1))
           (replicate 20 (Fin 1)) len a ! 19
         = tillsonT3Series pw (replicate 20 (Fin 1)) (replicate 20 (Fin 1))
             (replicate 20 (Fin 1)) len a ! 18"
  by (simp only: tillsonT3Series_passes Let_def src_flat passes_flat [OF assms])
     (simp add: idx_def)

lemma signal_rising:
  "at_last (colors (tillsonT3Series (pow example_lib) (replicate 19 (Fin 1) @ [Fin 2])
      (replicate 19 (Fin 1) @ [Fin 2]) (replicate 19 (Fin 1) @ [Fin 2]) length1 a1)) = Some green"
  "at_last (colors (tillsonT3Series (pow example_lib) (replicate 19 (Fin 1) @ [Fin 2])
      (replicate 19 (Fin 1) @ [Fin 2]) (replicate 19 (Fin 1) @ [Fin 2]) length2 a2)) = Some green"
  by (simp_all add: at_last_colors length_tillsonT3Series t3_rising_last_w1 t3_rising_last_w2
        less_number_def nless_def)

lemma signal_flat:
  "at_last (colors (tillsonT3Series pw (replicate 20 (Fin 1)) (replicate 20 (Fin 1))
      (replicate 20 (Fin 1)) length1 a1)) = Some red"
  "at_last (colors (tillsonT3Series pw (replicate 20 (Fin 1)) (replicate 20 (Fin 1))
      (replicate 20 (Fin 1)) length2 a2)) = Some red"
  by (simp_all add: at_last_colors length_tillsonT3Series t3_flat_tie [OF flat_w1]
        t3_flat_tie [OF flat_w2] less_number_def nless_irrefl)

lemma strategyCycle_signal:
  assumes "fetchData L (c_response i) = Some df" "20 \<le> length df"
    and "lastCandleTs st \<noteq> Some (candleTs_of v (df ! (length df - 1)))"
    and "at_last (colors (tillsonT3Series (pow L) (map high df) (map low df) (map close df)
           length1 a1)) = Some c"
    and "at_last (colors (tillsonT3Series (pow L) (map high df) (map low df) (map close df)
           length2 a2)) = Some c"
    and "c \<noteq> yellow"
    and "lastTrend st \<noteq> Some (if c = green then UPTREND else DOWNTREND)"
  shows "strategyCycle v L E i st =
     (let tr = (if c = green then UPTREND else DOWNTREND);
          lastc = df ! (length df - 1);
          candleTs = candleTs_of v lastc;
          istTime = format_ist L candleTs;
          state2 = st\<lparr>lastCandleTs := Some candleTs,
                      logs := append_log (logs st) \<lparr>trend = tr, time = istTime\<rparr>\<rparr>;
          msg = format_msg v L (c = green) tr lastc istTime;
          (state3, sent) = sendTelegram v E (c_now i) (c_post_ok i) msg state2;
          state4 = state3\<lparr>lastTrend := Some tr\<rparr>
      in (state4, Notify msg # sent @ [Emit (logs state4)]))"
  using assms by (cases c) (auto simp: strategyCycle_def Let_def split: prod.splits)

lemma rising_fetch:
  "fetchData example_lib (c_response (example_rising 1700001000))
   = Some (map (to_candle example_lib) (rising_rows 1700001000))"
  by code_simp

lemma rising_rows_length: "length (rising_rows t) = 20"
  by (simp add: rising_rows_def)

lemma example_rows_length: "length (example_rows t) = 20"
  by (simp add: example_rows_def)

lemma rising_length: "length (map (to_candle example_lib) (rising_rows t)) = 20"
  by (simp add: rising_rows_def)

lemma rising_last:
  "timestamp (map (to_candle example_lib) (rising_rows 1700001000)
      ! (length (map (to_candle example_lib) (rising_rows 1700001000)) - 1)) = 1700001000000"
  by code_simp

lemma later_fetch:
  "fetchData example_lib (c_response (example_in 1700004600))
   = Some (map (to_candle example_lib) (example_rows 1700004600))"
  by code_simp

lemma later_length: "length (map (to_candle example_lib) (example_rows t)) = 20"
  by (simp add: example_rows_def)

lemma later_last:
  "timestamp (map (to_candle example_lib) (example_rows 1700004600)
      ! (length (map (to_candle example_lib) (example_rows 1700004600)) - 1)) = 1700004600000"
  by code_simp


text \<open>
  C1, as amended.  Take two consecutive rounds that both fetch at least 20 candles.  In
  \<open>part_000\<close>, if the latest candles of the two polls have the same two-hour boundary
  (timestamp floor-divided by 7200000 and multiplied by 7200000), the later round
  returns the state the earlier one left and has an empty trace: no log entry, no call
  of \<open>sendTelegram\<close>, no broadcast.  In \<open>bot.js\<close> and \<open>part_001\<close> the same holds if
  the latest candles of the two polls have the same timestamp.
\<close>

theorem same_bar_no_second_emission:
  "fetchData L (c_response i1) = Some df1 \<Longrightarrow> 20 \<le> length df1 \<Longrightarrow>
   fetchData L (c_response i2) = Some df2 \<Longrightarrow> 20 \<le> length df2 \<Longrightarrow>
   (if v = Part000
    then timestamp (df1 ! (length df1 - 1)) div 7200000 * 7200000
         = timestamp (df2 ! (length df2 - 1)) div 7200000 * 7200000
    else timestamp (df1 ! (length df1 - 1)) = timestamp (df2 ! (length df2 - 1))) \<Longrightarrow>
   strategyCycle v L E i2 (fst (strategyCycle v L E i1 st)) =
     (fst (strategyCycle v L E i1 st), [])"
proof -
  assume f1: "fetchData L (c_response i1) = Some df1" and l1: "20 \<le> length df1"
    and f2: "fetchData L (c_response i2) = Some df2" and l2: "20 \<le> length df2"
    and same: "if v = Part000
      then timestamp (df1 ! (length df1 - 1)) div 7200000 * 7200000
           = timestamp (df2 ! (length df2 - 1)) div 7200000 * 7200000
      else timestamp (df1 ! (length df1 - 1)) = timestamp (df2 ! (length df2 - 1))"
  have "candleTs_of v (df1 ! (length df1 - 1)) = candleTs_of v (df2 ! (length df2 - 1))"
  proof (cases "v = Part000")
    case True
    with same show ?thesis
      by (simp only: candleTs_of_Part000 if_True)
  next
    case False
    with same show ?thesis
      by (cases v) (simp_all add: candleTs_of_def)
  qed
  with f1 l1 f2 l2 show ?thesis
    by (rule strategyCycle_repeat_bar)
qed

theorem same_bar_no_second_emission_witness:
  "fetchData example_lib (c_response (example_in 1700001000))
     = Some (map (to_candle example_lib) (example_rows 1700001000))
   \<and> 20 \<le> length (map (to_candle example_lib) (example_rows 1700001000))
   \<and> fetchData example_lib (c_response (example_in 1700004600))
     = Some (map (to_candle example_lib) (example_rows 1700004600))
   \<and> 20 \<le> length (map (to_candle example_lib) (example_rows 1700004600))
   \<and> timestamp (map (to_candle example_lib) (example_rows 1700001000)
        ! (length (map (to_candle example_lib) (example_rows 1700001000)) - 1))
       div 7200000 * 7200000
     = timestamp (map (to_candle example_lib) (example_rows 1700004600)
        ! (length (map (to_candle example_lib) (example_rows 1700004600)) - 1))
       div 7200000 * 7200000
   \<and> strategyCycle Part000 example_lib example_env (example_in 1700004600)
        (fst (strategyCycle Part000 example_lib example_env (example_in 1700001000)
                (initial_state 1)))
     = (fst (strategyCycle Part000 example_lib example_env (example_in 1700001000)
               (initial_state 1)), [])"
proof -
  let ?df1 = "map (to_candle example_lib) (example_rows 1700001000)"
  let ?df2 = "map (to_candle example_lib) (example_rows 1700004600)"
  have l1: "20 \<le> length ?df1" and l2: "20 \<le> length ?df2"
    by (simp_all only: later_length)
  have same: "timestamp (?df1 ! (length ?df1 - 1)) div 7200000 * 7200000
              = timestamp (?df2 ! (length ?df2 - 1)) div 7200000 * 7200000"
    by (simp only: example_last later_last) simp
  have "if Part000 = Part000
      then timestamp (?df1 ! (length ?df1 - 1)) div 7200000 * 7200000
           = timestamp (?df2 ! (length ?df2 - 1)) div 7200000 * 7200000
      else timestamp (?df1 ! (length ?df1 - 1)) = timestamp (?df2 ! (length ?df2 - 1))"
    by (rule if_P [OF refl, THEN iffD2, OF same])
  from same_bar_no_second_emission [OF example_fetch l1 later_fetch l2 this]
  show ?thesis
    using example_fetch later_fetch l1 l2 same by blast
qed

text \<open>
  C1 as stated fails on \<open>bot.js\<close>: the latest candles of two consecutive polls, at
  1700001000 s and 1700004600 s, have the same two-hour boundary 1699999200000 but
  different timestamps.  The first round, on rising prices, logs an uptrend; the second,
  on flat prices, logs a downtrend, calls \<open>sendTelegram\<close>, posts and broadcasts.
\<close>

theorem same_bar_second_emission_counterexample:
  "fetchData example_lib (c_response (example_rising 1700001000))
     = Some (map (to_candle example_lib) (rising_rows 1700001000))
   \<and> length (map (to_candle example_lib) (rising_rows 1700001000)) = 20
   \<and> fetchData example_lib (c_response (example_in 1700004600))
     = Some (map (to_candle example_lib) (example_rows 1700004600))
   \<and> length (map (to_candle example_lib) (example_rows 1700004600)) = 20
   \<and> timestamp (map (to_candle example_lib) (rising_rows 1700001000) ! 19)
       div 7200000 * 7200000 = 1699999200000
   \<and> timestamp (map (to_candle example_lib) (example_rows 1700004600) ! 19)
       div 7200000 * 7200000 = 1699999200000
   \<and> map trend (logs (fst (strategyCycle BotJs example_lib example_env
                              (example_rising 1700001000) (initial_state 1))))
     = [UPTREND]
   \<and> map trend (logs (fst (strategyCycle BotJs example_lib example_env
                              (example_in 1700004600)
                              (fst (strategyCycle BotJs example_lib example_env
                                      (example_rising 1700001000) (initial_state 1))))))
     = [UPTREND, DOWNTREND]
   \<and> snd (strategyCycle BotJs example_lib example_env (example_in 1700004600)
            (fst (strategyCycle BotJs example_lib example_env
                    (example_rising 1700001000) (initial_state 1))))
     = [Notify (format_msg BotJs example_lib False DOWNTREND
                  (map (to_candle example_lib) (example_rows 1700004600) ! 19)
                  (format_ist example_lib 1700004600000)),
        Post (format_msg BotJs example_lib False DOWNTREND
                  (map (to_candle example_lib) (example_rows 1700004600) ! 19)
                  (format_ist example_lib 1700004600000)),
        Emit [\<lparr>trend = UPTREND, time = format_ist example_lib 1700001000000\<rparr>,
              \<lparr>trend = DOWNTREND, time = format_ist example_lib 1700004600000\<rparr>]]"
proof -
  let ?df1 = "map (to_candle example_lib) (rising_rows 1700001000)"
  let ?df2 = "map (to_candle example_lib) (example_rows 1700004600)"
  let ?e1 = "\<lparr>trend = UPTREND, time = format_ist example_lib 1700001000000\<rparr>"
  let ?e2 = "\<lparr>trend = DOWNTREND, time = format_ist example_lib 1700004600000\<rparr>"
  let ?s1 = "\<lparr>lastTrend = Some UPTREND, lastCandleTs = Some 1700001000000, lastAlertTs = 0,
              logs = [?e1], leaderPID = 1, isLeader = True\<rparr>"
  let ?msg = "format_msg BotJs example_lib False DOWNTREND (?df2 ! 19)
                (format_ist example_lib 1700004600000)"
  have l1: "20 \<le> length ?df1" and l2: "20 \<le> length ?df2"
    by (simp_all only: rising_length later_length)
  have t1: "timestamp (?df1 ! 19) = 1700001000000"
    using rising_last by (simp only: rising_length) simp
  have t2: "timestamp (?df2 ! 19) = 1700004600000"
    using later_last by (simp only: later_length) simp
  from t1 have t1': "timestamp (to_candle example_lib (rising_rows 1700001000 ! 19))
                     = 1700001000000"
    by (simp add: rising_rows_length)
  from t2 have t2': "timestamp (to_candle example_lib (example_rows 1700004600 ! 19))
                     = 1700004600000"
    by (simp add: example_rows_length)
  have up1: "at_last (colors (tillsonT3Series (pow example_lib) (map high ?df1)
                (map low ?df1) (map close ?df1) length1 a1)) = Some green"
    and up2: "at_last (colors (tillsonT3Series (pow example_lib) (map high ?df1)
                (map low ?df1) (map close ?df1) length2 a2)) = Some green"
    by (simp_all only: prices_rising signal_rising)
  have dn1: "at_last (colors (tillsonT3Series (pow example_lib) (map high ?df2)
                (map low ?df2) (map close ?df2) length1 a1)) = Some red"
    and dn2: "at_last (colors (tillsonT3Series (pow example_lib) (map high ?df2)
                (map low ?df2) (map close ?df2) length2 a2)) = Some red"
    by (simp_all only: prices_flat signal_flat)
  have c1: "strategyCycle BotJs example_lib example_env (example_rising 1700001000)
              (initial_state 1)
            = (?s1, [Notify (format_msg BotJs example_lib True UPTREND (?df1 ! 19)
                               (format_ist example_lib 1700001000000)),
                     Post (format_msg BotJs example_lib True UPTREND (?df1 ! 19)
                               (format_ist example_lib 1700001000000)),
                     Emit [?e1]])"
    by (subst strategyCycle_signal [OF rising_fetch l1 _ up1 up2])
       (simp_all add: initial_state_def rising_rows_length candleTs_of_def t1'
          sendTelegram_def append_log_def Let_def)
  have c2: "strategyCycle BotJs example_lib example_env (example_in 1700004600) ?s1
            = (?s1\<lparr>lastTrend := Some DOWNTREND, lastCandleTs := Some 1700004600000,
                    logs := [?e1, ?e2]\<rparr>,
               [Notify ?msg, Post ?msg, Emit [?e1, ?e2]])"
    by (subst strategyCycle_signal [OF later_fetch l2 _ dn1 dn2])
       (simp_all add: example_rows_length candleTs_of_def t2' sendTelegram_def
          append_log_def Let_def)
  show ?thesis
    by (simp only: c1 c2 fst_conv snd_conv)
       (simp add: rising_fetch later_fetch rising_rows_length example_rows_length t1' t2')
qed

section \<open>Notifier\<close>

lemma sendTelegram_no_credentials:
  "falsy_env (BOT_TOKEN E) \<or> falsy_env (CHAT_ID E) \<Longrightarrow> v \<noteq> BotJs \<Longrightarrow>
   sendTelegram v E t ok m st = (st, [])"
  by (cases v) (auto simp: sendTelegram_def)

lemma strategyCycle_no_post:
  assumes "falsy_env (BOT_TOKEN E) \<or> falsy_env (CHAT_ID E)" "v \<noteq> BotJs"
  shows "Post m \<notin> set (snd (strategyCycle v L E i st))"
  by (auto simp: strategyCycle_def Let_def sendTelegram_no_credentials [OF assms]
           split: option.splits)

lemma run_cycles_no_post:
  assumes "falsy_env (BOT_TOKEN E) \<or> falsy_env (CHAT_ID E)" "v \<noteq> BotJs"
  shows "Post m \<notin> set (snd (run_cycles v L E ins st))"
proof (induction ins arbitrary: st)
  case Nil
  then show ?case by simp
next
  case (Cons i ins)
  from strategyCycle_no_post [OF assms, of m L i st] Cons.IH
  show ?case
    by (simp add: split_beta Let_def)
qed

text \<open>
  C9, as amended.  With a credential missing (unset or empty), \<open>part_000\<close> and
  \<open>part_001\<close> start and run: every call of \<open>sendTelegram\<close> returns the state unchanged
  without a post, and no round of the loop posts.  \<open>bot.js\<close> leaves at startup with
  status 1.
\<close>

theorem missing_credentials:
  "falsy_env (BOT_TOKEN E) \<or> falsy_env (CHAT_ID E) \<Longrightarrow>
   startup Part000 E pid g =
      Running (case g of None \<Rightarrow> initial_state pid | Some shared \<Rightarrow> shared\<lparr>isLeader := False\<rparr>)
   \<and> startup Part001 E pid g = Running (initial_state pid)
   \<and> sendTelegram Part000 E t ok m st = (st, [])
   \<and> sendTelegram Part001 E t ok m st = (st, [])
   \<and> Post m \<notin> set (snd (strategyLoop Part000 L E ins st))
   \<and> Post m \<notin> set (snd (strategyLoop Part001 L E ins st))
   \<and> startup BotJs E pid g = Exit 1"
proof -
  assume miss: "falsy_env (BOT_TOKEN E) \<or> falsy_env (CHAT_ID E)"
  have "Post m \<notin> set (snd (strategyLoop Part000 L E ins st))"
    using run_cycles_no_post [OF miss, of Part000 m L ins st]
    by (simp add: strategyLoop_def)
  moreover have "Post m \<notin> set (snd (strategyLoop Part001 L E ins st))"
    using run_cycles_no_post [OF miss, of Part001 m L ins st]
    by (simp add: strategyLoop_def)
  moreover have "startup BotJs E pid g = Exit 1"
    using miss by (auto simp: startup_def)
  moreover have "startup Part000 E pid g =
      Running (case g of None \<Rightarrow> initial_state pid | Some shared \<Rightarrow> shared\<lparr>isLeader := False\<rparr>)"
    by (simp add: startup_def split: option.splits)
  moreover have "startup Part001 E pid g = Running (initial_state pid)"
    by (simp add: startup_def)
  ultimately show ?thesis
    using miss by (simp add: sendTelegram_no_credentials)
qed

theorem missing_credentials_witness:
  "(falsy_env (BOT_TOKEN \<lparr>BOT_TOKEN = None, CHAT_ID = Some ''42''\<rparr>)
    \<or> falsy_env (CHAT_ID \<lparr>BOT_TOKEN = None, CHAT_ID = Some ''42''\<rparr>))
   \<and> startup Part001 \<lparr>BOT_TOKEN = None, CHAT_ID = Some ''42''\<rparr> 1 None
     = Running (initial_state 1)
   \<and> sendTelegram Part001 \<lparr>BOT_TOKEN = None, CHAT_ID = Some ''42''\<rparr> 1700001000001 True
        ''UPTREND'' (initial_state 1)
     = (initial_state 1, [])"
  using missing_credentials
    [of "\<lparr>BOT_TOKEN = None, CHAT_ID = Some ''42''\<rparr>" 1 None 1700001000001 True
        "''UPTREND''" "initial_state 1" example_lib "[]"]
  by (simp add: falsy_env_def)

text \<open>C9 as stated fails on \<open>bot.js\<close>: without a bot token its startup ends the process.\<close>

theorem missing_credentials_counterexample:
  "falsy_env (BOT_TOKEN \<lparr>BOT_TOKEN = None, CHAT_ID = Some ''42''\<rparr>)
   \<and> startup BotJs \<lparr>BOT_TOKEN = None, CHAT_ID = Some ''42''\<rparr> 1 None = Exit 1"
  by (simp add: startup_def falsy_env_def)

text \<open>
  C5, as amended.  In \<open>part_000\<close> a call of \<open>sendTelegram\<close> made less than 600000 ms
  after the recorded \<open>lastAlertTs\<close> posts nothing and leaves the state unchanged; a call
  that delivered at \<open>t1\<close> records \<open>t1\<close>, so a second call less than 600000 ms later is
  such a call.  \<open>bot.js\<close> and \<open>part_001\<close> keep no delivery time: \<open>bot.js\<close> posts on
  every call, \<open>part_001\<close> on every call made with both credentials present.
\<close>

theorem cooldown_suppresses_delivery:
  "(t2 - lastAlertTs st < 600000 \<longrightarrow> sendTelegram Part000 E t2 ok2 m2 st = (st, []))
   \<and> (sendTelegram Part000 E t1 True m1 st = (st1, [Post m1]) \<and> t2 - t1 < 600000 \<longrightarrow>
        lastAlertTs st1 = t1 \<and> sendTelegram Part000 E t2 ok2 m2 st1 = (st1, []))
   \<and> sendTelegram BotJs E t2 ok2 m2 st = (st, [Post m2])
   \<and> (\<not> falsy_env (BOT_TOKEN E) \<and> \<not> falsy_env (CHAT_ID E) \<longrightarrow>
        sendTelegram Part001 E t2 ok2 m2 st = (st, [Post (strip_tags m2)]))"
  by (auto simp: sendTelegram_def split: if_splits)

theorem cooldown_suppresses_delivery_witness:
  "sendTelegram Part000 example_env 1700001000001 True ''DOWNTREND'' (initial_state 1)
     = ((initial_state 1)\<lparr>lastAlertTs := 1700001000001\<rparr>, [Post ''DOWNTREND''])
   \<and> (1700001030001::int) - 1700001000001 < 600000
   \<and> (1700001030001::int)
       - lastAlertTs ((initial_state 1)\<lparr>lastAlertTs := 1700001000001\<rparr>) < 600000
   \<and> \<not> falsy_env (BOT_TOKEN example_env) \<and> \<not> falsy_env (CHAT_ID example_env)
   \<and> sendTelegram Part000 example_env 1700001030001 True ''UPTREND''
        ((initial_state 1)\<lparr>lastAlertTs := 1700001000001\<rparr>)
     = ((initial_state 1)\<lparr>lastAlertTs := 1700001000001\<rparr>, [])"
proof -
  have first: "sendTelegram Part000 example_env 1700001000001 True ''DOWNTREND'' (initial_state 1)
     = ((initial_state 1)\<lparr>lastAlertTs := 1700001000001\<rparr>, [Post ''DOWNTREND''])"
    by (simp add: sendTelegram_def initial_state_def example_env_def falsy_env_def)
  from cooldown_suppresses_delivery
         [of 1700001030001 "initial_state 1" example_env True "''UPTREND''" 1700001000001
             "''DOWNTREND''" "(initial_state 1)\<lparr>lastAlertTs := 1700001000001\<rparr>"]
  show ?thesis
    using first by (simp add: example_env_def falsy_env_def)
qed

text \<open>
  C5 as stated fails on \<open>bot.js\<close>: two calls 30 seconds apart both post.
\<close>

theorem cooldown_counterexample:
  "sendTelegram BotJs example_env 1700001000001 True ''DOWNTREND'' (initial_state 1)
     = (initial_state 1, [Post ''DOWNTREND''])
   \<and> (1700001030001::int) - 1700001000001 < 10 * 60 * 1000
   \<and> sendTelegram BotJs example_env 1700001030001 True ''UPTREND'' (initial_state 1)
     = (initial_state 1, [Post ''UPTREND''])"
  by (simp add: sendTelegram_def)

end
